theory Spec2Isabelle
  imports Main
begin

section \<open>Values of the platform\<close>

text \<open>
  The clients are TypeScript; at run time their parameters and payloads are JavaScript
  values. \<open>jsval\<close> holds the values the sources handle: \<open>undefined\<close>, \<open>null\<close>,
  booleans, integral numbers, strings and plain objects. An object is the list of its own
  enumerable properties in the order \<^verbatim>\<open>Object.keys\<close> lists them. Strings are byte strings
  (UTF-8). Arrays, functions and non-integral numbers have no representation.
\<close>

datatype jsval =
    JUndefined
  | JNull
  | JBool bool
  | JNum int
  | JStr string
  | JObj "(string \<times> jsval) list"

type_synonym jsobject = "(string \<times> jsval) list"

text \<open>Truthiness (\<^verbatim>\<open>ToBoolean\<close>), as \<^verbatim>\<open>if (x)\<close>, \<^verbatim>\<open>!x\<close> and \<^verbatim>\<open>x && y\<close> read a value.\<close>

fun truthy :: "jsval \<Rightarrow> bool" where
  "truthy JUndefined = False"
| "truthy JNull = False"
| "truthy (JBool b) = b"
| "truthy (JNum n) = (n \<noteq> 0)"
| "truthy (JStr s) = (s \<noteq> [])"
| "truthy (JObj ps) = True"

text \<open>Property access \<^verbatim>\<open>obj[key]\<close>, \<^verbatim>\<open>delete obj[key]\<close> and \<^verbatim>\<open>obj[key] = v\<close> on an object.\<close>

definition getProp :: "jsobject \<Rightarrow> string \<Rightarrow> jsval" where
  "getProp obj k = (case map_of obj k of None \<Rightarrow> JUndefined | Some v \<Rightarrow> v)"

definition deleteProp :: "string \<Rightarrow> jsobject \<Rightarrow> jsobject" where
  "deleteProp k obj = filter (\<lambda>p. fst p \<noteq> k) obj"

definition setProp :: "string \<Rightarrow> 'v \<Rightarrow> (string \<times> 'v) list \<Rightarrow> (string \<times> 'v) list" where
  "setProp k v obj =
     (if k \<in> fst ` set obj then map (\<lambda>p. if fst p = k then (k, v) else p) obj
      else obj @ [(k, v)])"

text \<open>Optional chaining \<^verbatim>\<open>v?.name\<close>: \<open>undefined\<close> on \<open>undefined\<close> and \<open>null\<close>, a property
  read otherwise (a primitive has no own property of that name).\<close>

fun optProp :: "jsval \<Rightarrow> string \<Rightarrow> jsval" where
  "optProp (JObj ps) k = getProp ps k"
| "optProp v k = JUndefined"

text \<open>Decimal numerals, for \<^verbatim>\<open>ToString\<close> of a number. The numbers of the model are the
  integers, and the numeral is what JavaScript prints for an integer that a double holds
  exactly and whose absolute value is below \<open>10\<^sup>2\<^sup>1\<close>; beyond that JavaScript rounds
  or prints an exponent, which is not modelled.\<close>

fun nat_to_string :: "nat \<Rightarrow> string" where
  "nat_to_string n =
     (if n < 10 then [''0123456789'' ! n]
      else nat_to_string (n div 10) @ [''0123456789'' ! (n mod 10)])"

declare nat_to_string.simps [simp del]

definition int_to_string :: "int \<Rightarrow> string" where
  "int_to_string i =
     (if i < 0 then CHR ''-'' # nat_to_string (nat (- i)) else nat_to_string (nat i))"

text \<open>\<^verbatim>\<open>ToString\<close>, as template literals, \<^verbatim>\<open>String.prototype.replace\<close> and
  \<^verbatim>\<open>URLSearchParams\<close> convert a value.\<close>

fun toString :: "jsval \<Rightarrow> string" where
  "toString JUndefined = ''undefined''"
| "toString JNull = ''null''"
| "toString (JBool b) = (if b then ''true'' else ''false'')"
| "toString (JNum n) = int_to_string n"
| "toString (JStr s) = s"
| "toString (JObj ps) = ''[object Object]''"

text \<open>\<^verbatim>\<open>s.includes(pat)\<close> and \<^verbatim>\<open>s.replace(pat, rep)\<close> with a string pattern: the first
  occurrence of \<open>pat\<close> is replaced, and in \<open>rep\<close> the sequences \<^verbatim>\<open>$$\<close>, \<^verbatim>\<open>$&\<close>,
  \<^verbatim>\<open>$`\<close> and \<^verbatim>\<open>$'\<close> stand for a dollar sign, the match, the text before it and the text
  after it. \<open>find_first pat s\<close> splits \<open>s\<close> around the first occurrence.\<close>

fun find_first :: "string \<Rightarrow> string \<Rightarrow> (string \<times> string) option" where
  "find_first pat [] = (if pat = [] then Some ([], []) else None)"
| "find_first pat (c # cs) =
     (if take (length pat) (c # cs) = pat then Some ([], drop (length pat) (c # cs))
      else map_option (\<lambda>(b, a). (c # b, a)) (find_first pat cs))"

definition includes_str :: "string \<Rightarrow> string \<Rightarrow> bool" where
  "includes_str s pat = (find_first pat s \<noteq> None)"

fun getSubstitution :: "string \<Rightarrow> string \<Rightarrow> string \<Rightarrow> string \<Rightarrow> string" where
  "getSubstitution m b a [] = []"
| "getSubstitution m b a [c] = [c]"
| "getSubstitution m b a (c # d # r) =
     (if c = CHR ''$'' \<and> d = CHR ''$'' then CHR ''$'' # getSubstitution m b a r
      else if c = CHR ''$'' \<and> d = CHR ''&'' then m @ getSubstitution m b a r
      else if c = CHR ''$'' \<and> d = CHR 0x60 then b @ getSubstitution m b a r
      else if c = CHR ''$'' \<and> d = CHR 0x27 then a @ getSubstitution m b a r
      else c # getSubstitution m b a (d # r))"

definition replace_str :: "string \<Rightarrow> string \<Rightarrow> string \<Rightarrow> string" where
  "replace_str s pat rep =
     (case find_first pat s of
        None \<Rightarrow> s
      | Some (b, a) \<Rightarrow> b @ getSubstitution pat b a rep @ a)"

text \<open>\<^verbatim>\<open>new URLSearchParams(obj).toString()\<close>: every property as \<open>name=value\<close>, both
  form-urlencoded, joined by \<open>&\<close>.\<close>

definition unreserved :: "char \<Rightarrow> bool" where
  "unreserved c =
     (let n = (of_char c :: nat) in
      (48 \<le> n \<and> n \<le> 57) \<or> (65 \<le> n \<and> n \<le> 90) \<or> (97 \<le> n \<and> n \<le> 122) \<or>
      c = CHR ''*'' \<or> c = CHR ''-'' \<or> c = CHR ''.'' \<or> c = CHR ''_'')"

definition urlencode_byte :: "char \<Rightarrow> string" where
  "urlencode_byte c =
     (if unreserved c then [c]
      else if c = CHR '' '' then ''+''
      else [CHR ''%'', ''0123456789ABCDEF'' ! (of_char c div 16),
            ''0123456789ABCDEF'' ! (of_char c mod 16)])"

definition urlencode :: "string \<Rightarrow> string" where
  "urlencode s = concat (map urlencode_byte s)"

fun join :: "string \<Rightarrow> string list \<Rightarrow> string" where
  "join sep [] = []"
| "join sep [x] = x"
| "join sep (x # y # ys) = x @ sep @ join sep (y # ys)"

definition URLSearchParams_toString :: "jsobject \<Rightarrow> string" where
  "URLSearchParams_toString obj =
     join ''&'' (map (\<lambda>(k, v). urlencode k @ ''='' @ urlencode (toString v)) obj)"

text \<open>\<^verbatim>\<open>JSON.stringify\<close>: \<open>None\<close> is its result \<open>undefined\<close>; a property whose value
  serialises to \<open>undefined\<close> is left out of its object.\<close>

definition json_quote_byte :: "char \<Rightarrow> string" where
  "json_quote_byte c =
     (if c = CHR 0x22 then [CHR 0x5C, CHR 0x22]
      else if c = CHR 0x5C then [CHR 0x5C, CHR 0x5C]
      else if c = CHR 0x08 then [CHR 0x5C, CHR ''b'']
      else if c = CHR 0x0C then [CHR 0x5C, CHR ''f'']
      else if c = CHR 0x0A then [CHR 0x5C, CHR ''n'']
      else if c = CHR 0x0D then [CHR 0x5C, CHR ''r'']
      else if c = CHR 0x09 then [CHR 0x5C, CHR ''t'']
      else if (of_char c :: nat) < 32
        then [CHR 0x5C, CHR ''u'', CHR ''0'', CHR ''0'',
              ''0123456789abcdef'' ! (of_char c div 16),
              ''0123456789abcdef'' ! (of_char c mod 16)]
      else [c])"

definition json_quote :: "string \<Rightarrow> string" where
  "json_quote s = [CHR 0x22] @ concat (map json_quote_byte s) @ [CHR 0x22]"

fun JSON_stringify :: "jsval \<Rightarrow> string option" where
  "JSON_stringify JUndefined = None"
| "JSON_stringify JNull = Some ''null''"
| "JSON_stringify (JBool b) = Some (if b then ''true'' else ''false'')"
| "JSON_stringify (JNum n) = Some (int_to_string n)"
| "JSON_stringify (JStr s) = Some (json_quote s)"
| "JSON_stringify (JObj ps) =
     Some (''{'' @
           join '',''
             (concat (map (\<lambda>(k, v). case JSON_stringify v of
                                        None \<Rightarrow> []
                                      | Some t \<Rightarrow> [json_quote k @ '':'' @ t]) ps)) @
           ''}'')"

section \<open>ApiResponse\<close>

text \<open>
  \<^verbatim>\<open>class ApiResponse<T>\<close> (the same text in both source files): five read-only fields,
  the two flags computed by the constructor from \<open>status\<close>. An omitted \<open>data\<close> argument
  is \<open>JUndefined\<close>.
\<close>

record apiResponse =
  status :: int
  statusText :: string
  data :: jsval
  isSuccess :: bool
  isTokenExpired :: bool

definition ApiResponse :: "int \<Rightarrow> string \<Rightarrow> jsval \<Rightarrow> apiResponse" where
  "ApiResponse s t d =
     \<lparr> status = s, statusText = t, data = d,
       isSuccess = (s = 200 \<or> s = 201 \<or> s = 204),
       isTokenExpired = (s = 401) \<rparr>"

datatype successResponse =
  SuccessResponse (statusCode: int) (message: string) (success_data: jsval)

text \<open>
  The three hooks take a callback and return \<open>this\<close>. A callback is the caller's code;
  what the model keeps of it is that it was called, and with which argument, as an entry
  appended to a log that is threaded through the hooks.
\<close>

datatype callback_call =
    FailCallback int string
  | SuccessCallback successResponse
  | TokenExpiredCallback

definition onFail :: "apiResponse \<Rightarrow> callback_call list \<Rightarrow> apiResponse \<times> callback_call list" where
  "onFail this log =
     (if isTokenExpired this then (this, log)
      else if \<not> isSuccess this
        then (this, log @ [FailCallback (status this) (statusText this)])
      else (this, log))"

definition onSuccess :: "apiResponse \<Rightarrow> callback_call list \<Rightarrow> apiResponse \<times> callback_call list" where
  "onSuccess this log =
     (if isTokenExpired this then (this, log)
      else if isSuccess this \<and> truthy (data this)
        then (this, log @ [SuccessCallback (SuccessResponse (status this) (statusText this) (data this))])
      else (this, log))"

definition onTokenExpired :: "apiResponse \<Rightarrow> callback_call list \<Rightarrow> apiResponse \<times> callback_call list" where
  "onTokenExpired this log =
     (if isTokenExpired this then (this, log @ [TokenExpiredCallback]) else (this, log))"

section \<open>Transport, thrown values and the store of objects\<close>

datatype httpMethod = get | post | put | patch | delete

text \<open>What one \<^verbatim>\<open>fetch(url, init)\<close> call sends.\<close>

record request =
  req_method :: httpMethod
  req_url :: string
  req_headers :: "(string \<times> string) list"
  req_body :: "string option"

text \<open>
  What \<^verbatim>\<open>fetch\<close> gives back: the promise rejects (no response was received), or it
  resolves to a response with a status, a status text and a body; \<open>resp_json\<close> is the value
  \<^verbatim>\<open>response.json()\<close> resolves to, \<open>None\<close> when the body is not JSON and the call rejects.
\<close>

datatype response =
  Response (resp_status: int) (resp_statusText: string) (resp_json: "jsval option")

datatype fetch_outcome = Rejected | Resolved response

text \<open>
  A thrown value, as the \<^verbatim>\<open>catch\<close> blocks read it: \<open>Nullish\<close> is \<open>null\<close> or \<open>undefined\<close>
  (reading a property of it throws a \<^verbatim>\<open>TypeError\<close>); any other value is \<open>Exn\<close> with its
  \<open>status\<close> and \<open>statusText\<close> properties, \<open>None\<close> where the property is \<open>undefined\<close> or
  \<open>null\<close>. The errors of the platform (\<^verbatim>\<open>TypeError\<close>, \<^verbatim>\<open>SyntaxError\<close>) have neither.
\<close>

datatype exn = Nullish | Exn (exn_status: "int option") (exn_statusText: "string option")

definition TypeError :: exn where
  "TypeError = Exn None None"

definition SyntaxError :: exn where
  "SyntaxError = Exn None None"

text \<open>The operator \<^verbatim>\<open>a ?? b\<close>.\<close>

definition nullish_or :: "'a option \<Rightarrow> 'a \<Rightarrow> 'a" where
  "nullish_or a b = (case a of None \<Rightarrow> b | Some x \<Rightarrow> x)"

text \<open>
  An interceptor is a callback without arguments, the caller's code. The model keeps
  whether a call of it returns or throws, and counts the calls.
\<close>

datatype interceptor = Returns | Throws exn

text \<open>
  Modelled from the spec: \<^verbatim>\<open>UserDataController\<close> (\<^verbatim>\<open>../data/UserDataController\<close>) is
  not among the sources, only its calls are. It is the spec's TokenStore, a holder of
  the current access and refresh tokens with get and set: \<open>getUserData\<close> reads both,
  \<open>saveUserData\<close> overwrites both. An absent token is \<open>JUndefined\<close>.
\<close>

record userData =
  accessToken :: jsval
  refreshToken :: jsval

text \<open>What the client on axios hands to \<^verbatim>\<open>axiosInstance.request\<close>, and what it sends to
  the refresh endpoint (url, method and the refresh token of the body).\<close>

record axiosRequest =
  rq_data :: "jsobject option"
  rq_params :: "jsobject option"
  rq_method :: httpMethod
  rq_url :: string
  rq_contentType :: string
  rq_Authorization :: "string option"

datatype axios_call =
    BusinessCall axiosRequest
  | RefreshCall string httpMethod jsval

text \<open>
  The parameter objects are shared between the caller and the client, which deletes
  properties from them, so they live in a store: \<open>heap w r\<close> is the object at reference \<open>r\<close>,
  \<open>nextRef\<close> the next unused reference. \<open>sent\<close> lists the requests handed to
  \<^verbatim>\<open>fetch\<close> so far, \<open>invoked\<close> counts the interceptor calls. \<open>userData\<close> is the content
  of the token store and \<open>calls\<close> lists the calls made through axios. The store holds
  the parameter objects only. A headers object is a value of the model, which gives the
  headers that are sent and not the write of the code into a headers object the caller
  passed (\<^verbatim>\<open>request\<close> of the hook sets \<^verbatim>\<open>Authorization\<close> in it); a client is passed to
  a method and returned by it, with the fields the method has assigned.
\<close>

type_synonym ref = nat

record world =
  heap :: "ref \<Rightarrow> jsobject"
  nextRef :: ref
  sent :: "request list"
  invoked :: nat
  userData :: userData
  calls :: "axios_call list"

text \<open>
  Modelled from the spec: the two calls the client makes of \<^verbatim>\<open>UserDataController\<close>,
  which is not among the sources. \<^verbatim>\<open>getUserData()\<close> is the spec's read of the TokenStore,
  \<^verbatim>\<open>saveUserData({accessToken, refreshToken})\<close> its write, which sets both tokens.
\<close>

definition getUserData :: "world \<Rightarrow> userData" where
  "getUserData w = userData w"

definition saveUserData :: "jsval \<Rightarrow> jsval \<Rightarrow> world \<Rightarrow> world" where
  "saveUserData newToken newTokenLong w =
     w\<lparr> userData := \<lparr> accessToken = newToken, refreshToken = newTokenLong \<rparr> \<rparr>"

text \<open>
  What the adapter of axios gives back for one call: a response with status, status text
  and payload, a failure without response (with the message of the error), or an error
  that is not an \<^verbatim>\<open>AxiosError\<close>.
\<close>

datatype adapter_outcome =
    Received int string jsval
  | NetworkFailure string
  | OtherFailure

text \<open>
  The surroundings of a run: \<open>fetch n req\<close> is the outcome of the call of \<^verbatim>\<open>fetch\<close> with
  \<open>req\<close> after \<open>n\<close> earlier calls, \<open>adapter n c\<close> that of the axios call \<open>c\<close> after \<open>n\<close>
  earlier ones; \<open>REACT_APP_API_URL\<close> is the variable of the process environment.
  \<open>refresh_url\<close> and \<open>refresh_method\<close> are \<^verbatim>\<open>userApiConfig.refreshToken\<close>, a constant
  declared outside the sources. \<open>handleObject\<close> is the effect on a payload object of
  the function of that name in the response interceptor, which deletes the properties
  that are \<open>null\<close> and renames \<open>ref\<close> to \<open>_ref\<close>, in place and at every depth; no
  statement below depends on the rewritten payload, which they leave a parameter.
\<close>

record env =
  fetch :: "nat \<Rightarrow> request \<Rightarrow> fetch_outcome"
  REACT_APP_API_URL :: "string option"
  adapter :: "nat \<Rightarrow> axios_call \<Rightarrow> adapter_outcome"
  refresh_url :: string
  refresh_method :: httpMethod
  handleObject :: "jsobject \<Rightarrow> jsobject"

definition alloc :: "jsobject \<Rightarrow> world \<Rightarrow> ref \<times> world" where
  "alloc obj w = (nextRef w, w\<lparr> heap := (heap w)(nextRef w := obj), nextRef := Suc (nextRef w) \<rparr>)"

definition do_fetch :: "env \<Rightarrow> request \<Rightarrow> world \<Rightarrow> fetch_outcome \<times> world" where
  "do_fetch e req w = (fetch e (length (sent w)) req, w\<lparr> sent := sent w @ [req] \<rparr>)"

text \<open>\<^verbatim>\<open>interceptor.forEach(interceptor => interceptor())\<close>: in order, up to the first
  that throws.\<close>

fun run_interceptors :: "interceptor list \<Rightarrow> world \<Rightarrow> exn option \<times> world" where
  "run_interceptors [] w = (None, w)"
| "run_interceptors (Returns # rest) w = run_interceptors rest (w\<lparr> invoked := Suc (invoked w) \<rparr>)"
| "run_interceptors (Throws ex # rest) w = (Some ex, w\<lparr> invoked := Suc (invoked w) \<rparr>)"

section \<open>Path substitution\<close>

text \<open>
  The three clients share the text of the loop

  \<^verbatim>\<open>Object.keys(data).forEach(key => {
       if (url.includes(`{${key}}`)) {
         url = url.replace(`{${key}}`, data[key]);
         delete data[key];
       }
     });\<close>

  over the keys the object had when the loop began; \<open>url\<close> and \<open>data\<close> are
  \<^verbatim>\<open>config.url\<close> and \<^verbatim>\<open>config.data\<close>, \<^verbatim>\<open>this.url\<close> and \<^verbatim>\<open>this.data\<close>, or the parameters
  \<open>url\<close> and \<open>params\<close>. (Two of them test \<^verbatim>\<open>data &&\<close> again inside the loop, where
  it holds.) \<open>substituteKeys\<close> is that loop on the url and the object.
\<close>

definition placeholder :: "string \<Rightarrow> string" where
  "placeholder key = ''{'' @ key @ ''}''"

fun substituteKeys :: "string list \<Rightarrow> string \<Rightarrow> jsobject \<Rightarrow> string \<times> jsobject" where
  "substituteKeys [] url obj = (url, obj)"
| "substituteKeys (key # keys) url obj =
     (if includes_str url (placeholder key)
      then substituteKeys keys
             (replace_str url (placeholder key) (toString (getProp obj key)))
             (deleteProp key obj)
      else substituteKeys keys url obj)"

text \<open>The keys the loop substitutes: those whose placeholder the url holds when their
  turn comes.\<close>

fun substitutedKeys :: "string list \<Rightarrow> string \<Rightarrow> jsobject \<Rightarrow> string list" where
  "substitutedKeys [] url obj = []"
| "substitutedKeys (key # keys) url obj =
     (if includes_str url (placeholder key)
      then key # substitutedKeys keys
             (replace_str url (placeholder key) (toString (getProp obj key)))
             (deleteProp key obj)
      else substitutedKeys keys url obj)"

section \<open>The client as a hook: useApiClient\<close>

text \<open>
  \<^verbatim>\<open>apiClientConfig\<close>, the argument of \<^verbatim>\<open>request\<close>; \<open>config_data\<close> is a reference to the
  caller's object. \<^verbatim>\<open>request\<close> builds its own \<open>config\<close> object from it, with the same
  reference in \<open>data\<close>. The headers are kept by value (where the caller passes a header
  object, the source writes the \<^verbatim>\<open>Authorization\<close> header into that object). The calls of
  \<^verbatim>\<open>Logger\<close>, which is outside the sources, are left out: they return nothing and are
  taken not to throw.
\<close>

record apiClientConfig =
  config_method :: httpMethod
  config_url :: string
  config_data :: "ref option"
  config_token :: "string option"
  config_headers :: "(string \<times> string) list option"
  config_interceptor :: "interceptor list option"

definition setUrlParams_hook :: "apiClientConfig \<Rightarrow> world \<Rightarrow> apiClientConfig \<times> world" where
  "setUrlParams_hook config w =
     (case config_data config of
        None \<Rightarrow> (config, w)
      | Some r \<Rightarrow>
          (case substituteKeys (map fst (heap w r)) (config_url config) (heap w r) of
             (url', obj') \<Rightarrow>
               (config\<lparr> config_url := url' \<rparr>, w\<lparr> heap := (heap w)(r := obj') \<rparr>)))"

definition setQueryParams_hook :: "apiClientConfig \<Rightarrow> world \<Rightarrow> apiClientConfig" where
  "setQueryParams_hook config w =
     (case config_data config of
        None \<Rightarrow> config
      | Some r \<Rightarrow>
          if config_method config \<noteq> get then config
          else config\<lparr> config_url :=
                 config_url config @ ''?'' @ URLSearchParams_toString (heap w r) \<rparr>)"

text \<open>The \<^verbatim>\<open>catch\<close> block of \<^verbatim>\<open>request\<close>: it reads \<^verbatim>\<open>e.status\<close> and \<^verbatim>\<open>e.statusText\<close>.\<close>

definition request_catch :: "exn \<Rightarrow> exn + apiResponse" where
  "request_catch e =
     (case e of
        Nullish \<Rightarrow> Inl TypeError
      | Exn s t \<Rightarrow>
          Inr (ApiResponse (nullish_or s 500) (nullish_or t ''Internal Server Error!'') JUndefined))"

text \<open>
  \<^verbatim>\<open>request\<close>, in the order of its text: the object \<open>config\<close>, the two functions
  above, the \<^verbatim>\<open>Authorization\<close> header for a truthy token, the interceptors, the call of
  \<^verbatim>\<open>fetch\<close> with its arguments, \<^verbatim>\<open>json()\<close> and the \<^verbatim>\<open>ApiResponse\<close>; whatever is
  thrown on the way reaches the \<^verbatim>\<open>catch\<close> block.
\<close>

definition request_config :: "apiClientConfig \<Rightarrow> apiClientConfig" where
  "request_config config0 =
     \<lparr> config_method = config_method config0,
       config_url = config_url config0,
       config_data = config_data config0,
       config_token = config_token config0,
       config_headers =
         Some (nullish_or (config_headers config0) [(''Content-Type'', ''application/json'')]),
       config_interceptor = Some (nullish_or (config_interceptor config0) []) \<rparr>"

definition request_headers :: "apiClientConfig \<Rightarrow> (string \<times> string) list" where
  "request_headers config =
     (case config_token config of
        None \<Rightarrow> nullish_or (config_headers config) []
      | Some token \<Rightarrow>
          if token = [] then nullish_or (config_headers config) []
          else setProp ''Authorization'' (''Bearer '' @ token)
                 (nullish_or (config_headers config) []))"

definition request_init :: "env \<Rightarrow> apiClientConfig \<Rightarrow> world \<Rightarrow> request" where
  "request_init e config w =
     \<lparr> req_method = config_method config,
       req_url = nullish_or (REACT_APP_API_URL e) [] @ config_url config,
       req_headers = request_headers config,
       req_body =
         (case config_data config of
            None \<Rightarrow> None
          | Some r \<Rightarrow>
              if config_method config \<noteq> get then JSON_stringify (JObj (heap w r))
              else None) \<rparr>"

definition request_settle :: "fetch_outcome \<Rightarrow> exn + apiResponse" where
  "request_settle out =
     (case out of
        Rejected \<Rightarrow> request_catch TypeError
      | Resolved fetchResponse \<Rightarrow>
          (case resp_json fetchResponse of
             None \<Rightarrow> request_catch SyntaxError
           | Some d \<Rightarrow>
               Inr (ApiResponse (resp_status fetchResponse) (resp_statusText fetchResponse) d)))"

definition request :: "env \<Rightarrow> apiClientConfig \<Rightarrow> world \<Rightarrow> (exn + apiResponse) \<times> world" where
  "request e config0 w =
     (case setUrlParams_hook (request_config config0) w of
        (config1, w1) \<Rightarrow>
          (case run_interceptors
                  (nullish_or (config_interceptor (setQueryParams_hook config1 w1)) []) w1 of
             (Some ex, w2) \<Rightarrow> (request_catch ex, w2)
           | (None, w2) \<Rightarrow>
               (case do_fetch e (request_init e (setQueryParams_hook config1 w1) w2) w2 of
                  (out, w3) \<Rightarrow> (request_settle out, w3))))"

section \<open>The fluent client: class ApiClient on fetch\<close>

record apiClient =
  this_baseUrl :: string
  this_httpMethod :: httpMethod
  this_url :: string
  this_data :: "ref option"
  this_headers :: "(string \<times> string) list"
  this_token :: jsval
  this_interceptor :: "interceptor list"

text \<open>\<^verbatim>\<open>new ApiClient(baseUrl)\<close>; the argument defaults to
  \<^verbatim>\<open>process.env.REACT_APP_API_URL ?? ''\<close>.\<close>

definition new_ApiClient :: "env \<Rightarrow> string option \<Rightarrow> apiClient" where
  "new_ApiClient e baseUrl =
     \<lparr> this_baseUrl =
         (case baseUrl of None \<Rightarrow> nullish_or (REACT_APP_API_URL e) [] | Some u \<Rightarrow> u),
       this_httpMethod = get,
       this_url = [],
       this_data = None,
       this_headers = [(''Content-Type'', ''application/json'')],
       this_token = JUndefined,
       this_interceptor = [] \<rparr>"

definition setMethod :: "httpMethod \<Rightarrow> apiClient \<Rightarrow> apiClient" where
  "setMethod method this = this\<lparr> this_httpMethod := method \<rparr>"

definition setUrl :: "string \<Rightarrow> apiClient \<Rightarrow> apiClient" where
  "setUrl url this = this\<lparr> this_url := this_baseUrl this @ url \<rparr>"

definition setData :: "ref \<Rightarrow> apiClient \<Rightarrow> apiClient" where
  "setData d this = this\<lparr> this_data := Some d \<rparr>"

definition setToken :: "jsval \<Rightarrow> apiClient \<Rightarrow> apiClient" where
  "setToken token this =
     this\<lparr> this_token := token,
           this_headers :=
             setProp ''Authorization'' (''Bearer '' @ toString token) (this_headers this) \<rparr>"

definition addHeader :: "(string \<times> string) list \<Rightarrow> apiClient \<Rightarrow> apiClient" where
  "addHeader header this =
     this\<lparr> this_headers := foldl (\<lambda>hs (k, v). setProp k v hs) (this_headers this) header \<rparr>"

definition addInterceptor :: "interceptor \<Rightarrow> apiClient \<Rightarrow> apiClient" where
  "addInterceptor i this = this\<lparr> this_interceptor := this_interceptor this @ [i] \<rparr>"

definition setUrlParams :: "apiClient \<Rightarrow> world \<Rightarrow> apiClient \<times> world" where
  "setUrlParams this w =
     (case this_data this of
        None \<Rightarrow> (this, w)
      | Some r \<Rightarrow>
          (case substituteKeys (map fst (heap w r)) (this_url this) (heap w r) of
             (url', obj') \<Rightarrow>
               (this\<lparr> this_url := url' \<rparr>, w\<lparr> heap := (heap w)(r := obj') \<rparr>)))"

definition setQueryParams :: "apiClient \<Rightarrow> world \<Rightarrow> apiClient" where
  "setQueryParams this w =
     (case this_data this of
        None \<Rightarrow> this
      | Some r \<Rightarrow>
          if this_httpMethod this \<noteq> get then this
          else this\<lparr> this_url := this_url this @ ''?'' @ URLSearchParams_toString (heap w r),
                     this_data := None \<rparr>)"

text \<open>The \<^verbatim>\<open>catch\<close> block of \<^verbatim>\<open>send\<close>: it reads \<^verbatim>\<open>error.data\<close> for the console.\<close>

definition send_catch :: "exn \<Rightarrow> exn + apiResponse" where
  "send_catch error =
     (case error of
        Nullish \<Rightarrow> Inl TypeError
      | Exn s t \<Rightarrow> Inr (ApiResponse 500 ''Internal Server Error'' JUndefined))"

text \<open>
  \<^verbatim>\<open>send\<close>, in the order of its text: the two functions above, the \<^verbatim>\<open>RequestInit\<close>
  object, the interceptors, the call of \<^verbatim>\<open>fetch\<close>, \<^verbatim>\<open>json()\<close> and the
  \<^verbatim>\<open>ApiResponse\<close>; whatever is thrown on the way reaches the \<^verbatim>\<open>catch\<close> block.
\<close>

definition send_init :: "apiClient \<Rightarrow> world \<Rightarrow> request" where
  "send_init this w =
     \<lparr> req_method = this_httpMethod this,
       req_url = this_url this,
       req_headers = this_headers this,
       req_body =
         (case this_data this of
            None \<Rightarrow> None
          | Some r \<Rightarrow>
              if this_httpMethod this \<noteq> get then JSON_stringify (JObj (heap w r))
              else None) \<rparr>"

definition send_settle :: "fetch_outcome \<Rightarrow> exn + apiResponse" where
  "send_settle out =
     (case out of
        Rejected \<Rightarrow> send_catch TypeError
      | Resolved fetchResponse \<Rightarrow>
          (case resp_json fetchResponse of
             None \<Rightarrow> send_catch SyntaxError
           | Some d \<Rightarrow>
               Inr (ApiResponse (resp_status fetchResponse) (resp_statusText fetchResponse) d)))"

definition send :: "env \<Rightarrow> apiClient \<Rightarrow> world \<Rightarrow> (exn + apiResponse) \<times> apiClient \<times> world" where
  "send e this w =
     (case setUrlParams this w of
        (this1, w1) \<Rightarrow>
          (case run_interceptors (this_interceptor (setQueryParams this1 w1)) w1 of
             (Some ex, w2) \<Rightarrow> (send_catch ex, setQueryParams this1 w1, w2)
           | (None, w2) \<Rightarrow>
               (case do_fetch e (send_init (setQueryParams this1 w1) w1) w2 of
                  (out, w3) \<Rightarrow> (send_settle out, setQueryParams this1 w1, w3))))"

text \<open>
  \<^verbatim>\<open>refreshAccessToken\<close> sends a fixed request with a client of its own, then stores
  \<^verbatim>\<open>response.data?.accessToken\<close> in \<^verbatim>\<open>this.token\<close>, whatever the response, and returns
  \<^verbatim>\<open>{isSuccess, newToken}\<close>.
\<close>

definition refreshAccessToken ::
  "env \<Rightarrow> apiClient \<Rightarrow> world \<Rightarrow> (exn + bool \<times> jsval) \<times> apiClient \<times> world" where
  "refreshAccessToken e this w =
     (case alloc [(''refreshToken'', JStr ''refresh'')] w of
        (r, w1) \<Rightarrow>
          (case send e (setData r (setUrl [] (setMethod post (new_ApiClient e None)))) w1 of
             (Inl ex, c, w2) \<Rightarrow> (Inl ex, this, w2)
           | (Inr response, c, w2) \<Rightarrow>
               (Inr (isSuccess response, optProp (data response) ''accessToken''),
                this\<lparr> this_token := optProp (data response) ''accessToken'' \<rparr>, w2)))"

definition checkResponse ::
  "env \<Rightarrow> apiClient \<Rightarrow> response \<Rightarrow> world \<Rightarrow> (exn + apiResponse) \<times> apiClient \<times> world" where
  "checkResponse e this response w =
     (if resp_status response = 401
      then (case refreshAccessToken e this w of
              (Inl ex, this1, w1) \<Rightarrow> (Inl ex, this1, w1)
            | (Inr (isSuccess', newToken), this1, w1) \<Rightarrow>
                if \<not> isSuccess' \<or> \<not> truthy newToken
                then (Inr (ApiResponse 401 ''Unauthorized'' JUndefined), this1, w1)
                else send e (setToken newToken this1) w1)
      else (case resp_json response of
              None \<Rightarrow> (Inl SyntaxError, this, w)
            | Some d \<Rightarrow>
                (Inr (ApiResponse (resp_status response) (resp_statusText response) d), this, w)))"

section \<open>The client on axios: class ApiClient with interceptors\<close>

text \<open>
  Modelled from the spec: the declaration of \<^verbatim>\<open>ApiConfig\<close> (\<^verbatim>\<open>./ApiConfig\<close>) is not among
  the sources. The record has the fields the client reads: the spec's RequestSpec with
  its method, URL template and tokenless flag, and the content type the client copies
  into the headers.
\<close>

record apiConfig =
  ac_url :: string
  ac_method :: httpMethod
  ac_contentType :: string
  ac_isTokenLess :: bool

record axiosClient =
  ax_config :: apiConfig
  ax_body :: ref
  ax_url :: string
  ax_accessToken :: jsval
  ax_interceptor :: interceptor
  ax_registered :: nat

definition setUrlParams_axios :: "string \<Rightarrow> ref \<Rightarrow> world \<Rightarrow> string \<times> world" where
  "setUrlParams_axios url params w =
     (case substituteKeys (map fst (heap w params)) url (heap w params) of
        (url', obj') \<Rightarrow> (url', w\<lparr> heap := (heap w)(params := obj') \<rparr>))"

text \<open>
  The constructor. \<open>body\<close> is a reference to the caller's object, \<open>None\<close> when the
  caller passes \<open>undefined\<close> or \<open>null\<close>, on which \<^verbatim>\<open>Object.keys\<close> throws. The
  constructor makes the axios instance of the client, \<^verbatim>\<open>this.axiosInstance\<close>, with no
  interceptor on it; \<open>ax_registered\<close> is the number of response interceptors registered
  on that instance.
\<close>

definition new_ApiClient_axios ::
  "apiConfig \<Rightarrow> ref option \<Rightarrow> string option \<Rightarrow> world \<Rightarrow> (exn + axiosClient) \<times> world" where
  "new_ApiClient_axios config body accessToken' w =
     (case body of
        None \<Rightarrow> (Inl TypeError, w)
      | Some r \<Rightarrow>
          (case setUrlParams_axios (ac_url config) r w of
             (url, w1) \<Rightarrow>
               (let stored =
                      (if accessToken (getUserData w1) = JUndefined \<or>
                          accessToken (getUserData w1) = JNull
                       then JStr [] else accessToken (getUserData w1))
                in (Inr \<lparr> ax_config = config, ax_body = r, ax_url = url,
                          ax_accessToken =
                            (case accessToken' of
                               None \<Rightarrow> stored
                             | Some t \<Rightarrow> if t = [] then stored else JStr t),
                          ax_interceptor = Returns, ax_registered = 0 \<rparr>, w1))))"

definition addInterceptor_axios :: "interceptor \<Rightarrow> axiosClient \<Rightarrow> axiosClient" where
  "addInterceptor_axios i this = this\<lparr> ax_interceptor := i \<rparr>"

text \<open>
  The part of axios the client relies on. A call through an instance asks the adapter,
  then settles: a response whose status is in the range 200 to 299 (the default
  \<^verbatim>\<open>validateStatus\<close>) fulfils the promise; any other response rejects it with an
  \<^verbatim>\<open>AxiosError\<close> that carries the response and the message
  \<^verbatim>\<open>Request failed with status code N\<close>; a failure without response rejects it with an
  \<^verbatim>\<open>AxiosError\<close> without response. The response interceptors of the instance then run
  on the result, in the order of their registration and each on the result of the one
  before: the first handler of an interceptor on a fulfilled promise, the second on a
  rejected one, as \<^verbatim>\<open>promise.then(fulfilled, rejected)\<close> does.
\<close>

datatype axiosResponse =
  AxiosResponse (ar_status: int) (ar_statusText: string) (ar_data: jsval)

datatype axios_error =
    AxiosError (err_message: string) (err_response: "axiosResponse option")
  | NonAxiosError

definition settle :: "adapter_outcome \<Rightarrow> axios_error + axiosResponse" where
  "settle out =
     (case out of
        Received s t d \<Rightarrow>
          if 200 \<le> s \<and> s < 300 then Inr (AxiosResponse s t d)
          else Inl (AxiosError (''Request failed with status code '' @ int_to_string s)
                      (Some (AxiosResponse s t d)))
      | NetworkFailure m \<Rightarrow> Inl (AxiosError m None)
      | OtherFailure \<Rightarrow> Inl NonAxiosError)"

definition do_axios :: "env \<Rightarrow> axios_call \<Rightarrow> world \<Rightarrow> (axios_error + axiosResponse) \<times> world" where
  "do_axios e c w = (settle (adapter e (length (calls w)) c), w\<lparr> calls := calls w @ [c] \<rparr>)"

text \<open>
  \<^verbatim>\<open>refreshAccessToken\<close> of the client on axios, on an instance of its own that has no
  interceptor. Its \<^verbatim>\<open>try\<close> block also catches the \<^verbatim>\<open>TypeError\<close> of reading a property
  of a payload that is \<open>undefined\<close> or \<open>null\<close>. \<^verbatim>\<open>failRefreshToken\<close> has an empty body.
\<close>

definition refreshAccessToken_axios :: "env \<Rightarrow> world \<Rightarrow> (bool \<times> jsval) \<times> world" where
  "refreshAccessToken_axios e w =
     (case do_axios e (RefreshCall (refresh_url e) (refresh_method e)
                         (refreshToken (getUserData w))) w of
        (Inl error, w1) \<Rightarrow> ((False, JUndefined), w1)
      | (Inr response, w1) \<Rightarrow>
          if ar_data response = JUndefined \<or> ar_data response = JNull
          then ((False, JUndefined), w1)
          else (let newToken = optProp (ar_data response) ''accessToken'';
                    newTokenLong = optProp (ar_data response) ''refreshToken''
                in if \<not> truthy newToken \<or> \<not> truthy newTokenLong
                   then ((False, JUndefined), w1)
                   else ((True, newToken), saveUserData newToken newTokenLong w1)))"

text \<open>The first handler of the response interceptor, on the fields \<^verbatim>\<open>send\<close> reads: a
  payload \<open>null\<close> is deleted from the response, a payload object is rewritten.\<close>

definition handleResponse :: "env \<Rightarrow> axiosResponse \<Rightarrow> axiosResponse" where
  "handleResponse e response =
     (case ar_data response of
        JNull \<Rightarrow> AxiosResponse (ar_status response) (ar_statusText response) JUndefined
      | JObj ps \<Rightarrow>
          AxiosResponse (ar_status response) (ar_statusText response) (JObj (handleObject e ps))
      | d \<Rightarrow> response)"

text \<open>
  What a call of the instance settles to: a response, or an error together with the
  configuration of the request it stems from (\<^verbatim>\<open>error.config\<close>), and the world after it.
\<close>

type_synonym axios_settled = "(axios_error \<times> axiosRequest + axiosResponse) \<times> world"

text \<open>
  The second handler that \<^verbatim>\<open>setInterceptors(instance)\<close> registers. \<open>instance\<close> is the
  parameter of \<^verbatim>\<open>setInterceptors\<close>: the handler retries with
  \<^verbatim>\<open>instance(originalRequest)\<close>, a call of the instance it is registered on.
\<close>

definition rejected_handler ::
  "(axiosRequest \<Rightarrow> world \<Rightarrow> axios_settled option) \<Rightarrow> env \<Rightarrow> axios_error \<Rightarrow> axiosRequest \<Rightarrow>
     world \<Rightarrow> axios_settled option" where
  "rejected_handler instance e error originalRequest w =
     (case error of
        NonAxiosError \<Rightarrow> Some (Inl (error, originalRequest), w)
      | AxiosError m None \<Rightarrow> Some (Inl (error, originalRequest), w)
      | AxiosError m (Some response) \<Rightarrow>
          if ar_status response = 401
          then (case refreshAccessToken_axios e w of
                  ((isSuccess', newToken), w2) \<Rightarrow>
                    if isSuccess'
                    then instance
                           (originalRequest\<lparr> rq_Authorization :=
                              Some (''Bearer '' @ toString newToken) \<rparr>) w2
                    else Some (Inl (error, originalRequest), w2))
          else Some (Inl (error, originalRequest), w))"

text \<open>
  The chain of the \<open>k\<close> response interceptors registered on an instance. They are
  all the pair that \<^verbatim>\<open>setInterceptors\<close> registers: \<open>handleResponse\<close> and
  \<open>rejected_handler\<close>.
\<close>

fun responseInterceptors ::
  "nat \<Rightarrow> (axiosRequest \<Rightarrow> world \<Rightarrow> axios_settled option) \<Rightarrow> env \<Rightarrow> axios_settled \<Rightarrow>
     axios_settled option" where
  "responseInterceptors 0 instance e settled = Some settled"
| "responseInterceptors (Suc k) instance e (Inr response, w) =
     responseInterceptors k instance e (Inr (handleResponse e response), w)"
| "responseInterceptors (Suc k) instance e (Inl (error, config), w) =
     (case rejected_handler instance e error config w of
        None \<Rightarrow> None
      | Some settled \<Rightarrow> responseInterceptors k instance e settled)"

text \<open>
  A call of an instance with \<open>k\<close> response interceptors: \<^verbatim>\<open>axiosInstance.request\<close> in
  \<^verbatim>\<open>send\<close>, and \<^verbatim>\<open>instance(originalRequest)\<close> in the second handler, which is a call
  of the same instance and so runs the same interceptors on its result. The recursion
  has no bound in the source; the first argument bounds the depth of the calls of the
  instance inside one another, and \<open>None\<close> says that this bound did not suffice.
\<close>

fun axiosInstance ::
  "nat \<Rightarrow> nat \<Rightarrow> env \<Rightarrow> axiosRequest \<Rightarrow> world \<Rightarrow> axios_settled option" where
  "axiosInstance 0 k e config w = None"
| "axiosInstance (Suc n) k e config w =
     (case do_axios e (BusinessCall config) w of
        (Inr response, w1) \<Rightarrow>
          responseInterceptors k (\<lambda>c w'. axiosInstance n k e c w') e (Inr response, w1)
      | (Inl error, w1) \<Rightarrow>
          responseInterceptors k (\<lambda>c w'. axiosInstance n k e c w') e (Inl (error, config), w1))"

definition send_axios_config :: "axiosClient \<Rightarrow> world \<Rightarrow> axiosRequest" where
  "send_axios_config this w =
     \<lparr> rq_data =
         (if ac_method (ax_config this) = get then None else Some (heap w (ax_body this))),
       rq_params =
         (if ac_method (ax_config this) = get then Some (heap w (ax_body this)) else None),
       rq_method = ac_method (ax_config this),
       rq_url = ax_url this,
       rq_contentType = ac_contentType (ax_config this),
       rq_Authorization =
         (if ac_isTokenLess (ax_config this) then None
          else Some (''Bearer '' @ toString (ax_accessToken this))) \<rparr>"

text \<open>
  \<^verbatim>\<open>send\<close> of the client on axios first calls \<^verbatim>\<open>setInterceptors\<close>, which registers one
  more response interceptor on the instance of the client, then calls the instance and
  builds the \<^verbatim>\<open>ApiResponse\<close>, from the response or, in its \<^verbatim>\<open>catch\<close> block, from the
  error. The interceptor set with \<^verbatim>\<open>addInterceptor\<close> is not called. \<open>send_axios\<close> gives
  the result and the world; the client after a \<^verbatim>\<open>send\<close> is \<open>setInterceptors this\<close>, so
  that the first \<^verbatim>\<open>send\<close> of a client runs one interceptor, the second two.
\<close>

definition setInterceptors :: "axiosClient \<Rightarrow> axiosClient" where
  "setInterceptors this = this\<lparr> ax_registered := Suc (ax_registered this) \<rparr>"

definition send_axios :: "nat \<Rightarrow> env \<Rightarrow> axiosClient \<Rightarrow> world \<Rightarrow> (apiResponse \<times> world) option" where
  "send_axios n e this w =
     (case axiosInstance n (ax_registered (setInterceptors this)) e (send_axios_config this w) w of
        None \<Rightarrow> None
      | Some (Inr response, w1) \<Rightarrow>
          Some (ApiResponse (ar_status response) (ar_statusText response) (ar_data response), w1)
      | Some (Inl (AxiosError m r, c), w1) \<Rightarrow>
          Some (ApiResponse (nullish_or (map_option ar_status r) 500) m JUndefined, w1)
      | Some (Inl (NonAxiosError, c), w1) \<Rightarrow>
          Some (ApiResponse 500 ''Internal Server Error'' JUndefined, w1))"

definition refreshCalls :: "world \<Rightarrow> nat" where
  "refreshCalls w =
     length (filter (\<lambda>c. case c of RefreshCall u m t \<Rightarrow> True | BusinessCall rq \<Rightarrow> False) (calls w))"

definition businessCalls :: "world \<Rightarrow> nat" where
  "businessCalls w =
     length (filter (\<lambda>c. case c of RefreshCall u m t \<Rightarrow> False | BusinessCall rq \<Rightarrow> True) (calls w))"

section \<open>Notions the statements use\<close>

text \<open>The request each client hands to \<^verbatim>\<open>fetch\<close> when no interceptor throws, and the
  request of the fluent client's \<^verbatim>\<open>refreshAccessToken\<close>.\<close>

definition request_dispatched :: "env \<Rightarrow> apiClientConfig \<Rightarrow> world \<Rightarrow> request" where
  "request_dispatched e cfg w =
     (case setUrlParams_hook (request_config cfg) w of
        (config1, w1) \<Rightarrow> request_init e (setQueryParams_hook config1 w1) w1)"

definition send_dispatched :: "apiClient \<Rightarrow> world \<Rightarrow> request" where
  "send_dispatched this w =
     (case setUrlParams this w of
        (this1, w1) \<Rightarrow> send_init (setQueryParams this1 w1) w1)"

definition refresh_dispatched :: "env \<Rightarrow> world \<Rightarrow> request" where
  "refresh_dispatched e w =
     (case alloc [(''refreshToken'', JStr ''refresh'')] w of
        (r, w1) \<Rightarrow>
          send_dispatched (setData r (setUrl [] (setMethod post (new_ApiClient e None)))) w1)"

text \<open>
  A failed refresh, in the spec's words: the refresh call fails in the transport, returns
  a status that is not a success, or returns a body without the new token. For the
  fluent client the successes are 200, 201 and 204 (\<open>isSuccess\<close>), an unreadable body
  counts as a failure of the transport, and the only token read is the access token. For
  the client on axios the successes are 200 to 299 and both tokens are read.
\<close>

definition refreshFails_fetch :: "fetch_outcome \<Rightarrow> bool" where
  "refreshFails_fetch out =
     (case out of
        Rejected \<Rightarrow> True
      | Resolved response \<Rightarrow>
          (case resp_json response of
             None \<Rightarrow> True
           | Some d \<Rightarrow>
               \<not> (resp_status response = 200 \<or> resp_status response = 201 \<or>
                  resp_status response = 204) \<or>
               \<not> truthy (optProp d ''accessToken'')))"

definition refreshFails_axios :: "adapter_outcome \<Rightarrow> bool" where
  "refreshFails_axios out =
     (case out of
        Received s t d \<Rightarrow>
          \<not> (200 \<le> s \<and> s < 300) \<or> \<not> truthy (optProp d ''accessToken'') \<or>
          \<not> truthy (optProp d ''refreshToken'')
      | NetworkFailure m \<Rightarrow> True
      | OtherFailure \<Rightarrow> True)"

text \<open>The access token in the payload of the fluent client's refresh response;
  \<open>JUndefined\<close> when there is no payload.\<close>

definition refreshedToken :: "fetch_outcome \<Rightarrow> jsval" where
  "refreshedToken out =
     (case out of
        Rejected \<Rightarrow> JUndefined
      | Resolved response \<Rightarrow>
          (case resp_json response of
             None \<Rightarrow> JUndefined
           | Some d \<Rightarrow> optProp d ''accessToken''))"

section \<open>Example runs\<close>

text \<open>
  A store with the two parameter objects of the spec's scenarios,
  \<^verbatim>\<open>{id: 42, active: true}\<close> at reference 0 and \<^verbatim>\<open>{sku: "X1"}\<close> at reference 1, and
  a token store holding an access and a refresh token.
\<close>

definition wA :: world where
  "wA = \<lparr> heap = (\<lambda>r. if r = 0 then [(''id'', JNum 42), (''active'', JBool True)]
                       else if r = 1 then [(''sku'', JStr ''X1'')] else []),
          nextRef = 2, sent = [], invoked = 0,
          userData = \<lparr> accessToken = JStr ''a0'', refreshToken = JStr ''r0'' \<rparr>,
          calls = [] \<rparr>"

definition tokens1 :: jsval where
  "tokens1 = JObj [(''accessToken'', JStr ''a1''), (''refreshToken'', JStr ''r1'')]"

text \<open>A network that is down: every call fails without a response.\<close>

definition envDown :: env where
  "envDown =
     \<lparr> fetch = (\<lambda>n req. Rejected), REACT_APP_API_URL = None,
       adapter = (\<lambda>n c. NetworkFailure ''Network Error''),
       refresh_url = ''/user/refresh'', refresh_method = post,
       handleObject = (\<lambda>ps. ps) \<rparr>"

text \<open>A server that answers every request with 200.\<close>

definition envOk :: env where
  "envOk =
     \<lparr> fetch = (\<lambda>n req. Resolved (Response 200 ''OK'' (Some (JObj [(''ok'', JBool True)])))),
       REACT_APP_API_URL = None,
       adapter = (\<lambda>n c. Received 200 ''OK'' (JObj [(''ok'', JBool True)])),
       refresh_url = ''/user/refresh'', refresh_method = post,
       handleObject = (\<lambda>ps. ps) \<rparr>"

text \<open>A server that answers 401 to the business request, and whose refresh endpoint is
  down.\<close>

definition envRefreshDown :: env where
  "envRefreshDown =
     \<lparr> fetch = (\<lambda>n req. Rejected), REACT_APP_API_URL = None,
       adapter = (\<lambda>n c. case c of
                    BusinessCall rq \<Rightarrow> Received 401 ''Unauthorized'' JNull
                  | RefreshCall u m t \<Rightarrow> NetworkFailure ''Network Error''),
       refresh_url = ''/user/refresh'', refresh_method = post,
       handleObject = (\<lambda>ps. ps) \<rparr>"

text \<open>
  A server that answers 401 to a business request that is the second call and 200 to
  any other, and whose refresh endpoint fails in the transport when it is the third
  call and hands out new tokens later.
\<close>

definition envRefreshDownOnce :: env where
  "envRefreshDownOnce =
     \<lparr> fetch = (\<lambda>n req. Rejected), REACT_APP_API_URL = None,
       adapter = (\<lambda>n c. case c of
                    BusinessCall rq \<Rightarrow>
                      if n = 1 then Received 401 ''Unauthorized'' JNull
                      else Received 200 ''OK'' (JObj [(''ok'', JBool True)])
                  | RefreshCall u m t \<Rightarrow>
                      if n = 2 then NetworkFailure ''Network Error''
                      else Received 200 ''OK'' tokens1),
       refresh_url = ''/user/refresh'', refresh_method = post,
       handleObject = (\<lambda>ps. ps) \<rparr>"

text \<open>
  A server that answers 401 to the first two business requests and 200 to the third,
  and whose refresh endpoint hands out new tokens every time; and one that answers 401
  to every business request.
\<close>

definition envTwice401 :: env where
  "envTwice401 =
     \<lparr> fetch = (\<lambda>n req. Rejected), REACT_APP_API_URL = None,
       adapter = (\<lambda>n c. case c of
                    BusinessCall rq \<Rightarrow>
                      if n < 4 then Received 401 ''Unauthorized'' JNull
                      else Received 200 ''OK'' (JObj [(''ok'', JBool True)])
                  | RefreshCall u m t \<Rightarrow> Received 200 ''OK'' tokens1),
       refresh_url = ''/user/refresh'', refresh_method = post,
       handleObject = (\<lambda>ps. ps) \<rparr>"

definition envAlways401 :: env where
  "envAlways401 =
     \<lparr> fetch = (\<lambda>n req. Rejected), REACT_APP_API_URL = None,
       adapter = (\<lambda>n c. case c of
                    BusinessCall rq \<Rightarrow> Received 401 ''Unauthorized'' JNull
                  | RefreshCall u m t \<Rightarrow> Received 200 ''OK'' tokens1),
       refresh_url = ''/user/refresh'', refresh_method = post,
       handleObject = (\<lambda>ps. ps) \<rparr>"

text \<open>The requests of the spec's scenarios A and B, for each client.\<close>

definition cfgA :: apiClientConfig where
  "cfgA = \<lparr> config_method = get, config_url = ''/users/{id}'', config_data = Some 0,
            config_token = None, config_headers = None, config_interceptor = None \<rparr>"

definition cfgB :: apiClientConfig where
  "cfgB = \<lparr> config_method = post, config_url = ''/orders'', config_data = Some 1,
            config_token = None, config_headers = None, config_interceptor = None \<rparr>"

definition clientA :: apiClient where
  "clientA = setData 0 (setUrl ''/users/{id}'' (setMethod get (new_ApiClient envDown None)))"

definition clientB :: apiClient where
  "clientB =
     setToken (JStr ''old'')
       (setData 1 (setUrl ''/orders'' (setMethod post (new_ApiClient envDown None))))"

definition configA :: apiConfig where
  "configA = \<lparr> ac_url = ''/users/{id}'', ac_method = get,
               ac_contentType = ''application/json'', ac_isTokenLess = False \<rparr>"

definition axiosB :: axiosClient where
  "axiosB = \<lparr> ax_config = \<lparr> ac_url = ''/orders'', ac_method = post,
                              ac_contentType = ''application/json'', ac_isTokenLess = False \<rparr>,
              ax_body = 1, ax_url = ''/orders'', ax_accessToken = JStr ''a0'',
              ax_interceptor = Returns, ax_registered = 0 \<rparr>"

text \<open>An interceptor that throws an \<^verbatim>\<open>Error\<close>, after one that returns.\<close>

definition cfgThrows :: apiClientConfig where
  "cfgThrows = cfgB\<lparr> config_interceptor := Some [Returns, Throws (Exn None None), Returns] \<rparr>"

definition clientThrows :: apiClient where
  "clientThrows =
     addInterceptor Returns (addInterceptor (Throws (Exn None None)) (addInterceptor Returns clientB))"

section \<open>Properties of ApiResponse\<close>

text \<open>
  C2. For every integer status, the flags of a constructed response are functions of the
  status alone: \<open>isSuccess\<close> holds exactly for 200, 201 and 204, \<open>isTokenExpired\<close>
  exactly for 401, the two never hold together, and the hooks, the only methods of the
  class, hand back the response they were called on, flags included.
\<close>

theorem C2_flags_are_functions_of_status:
  "isSuccess (ApiResponse s t d) = (s = 200 \<or> s = 201 \<or> s = 204) \<and>
   isTokenExpired (ApiResponse s t d) = (s = 401) \<and>
   \<not> (isSuccess (ApiResponse s t d) \<and> isTokenExpired (ApiResponse s t d)) \<and>
   fst (onFail (ApiResponse s t d) log) = ApiResponse s t d \<and>
   fst (onSuccess (ApiResponse s t d) log) = ApiResponse s t d \<and>
   fst (onTokenExpired (ApiResponse s t d) log) = ApiResponse s t d"
  by (auto simp: ApiResponse_def onFail_def onSuccess_def onTokenExpired_def)

text \<open>
  C6. On a response whose \<open>isTokenExpired\<close> flag is set, \<open>onSuccess\<close> and \<open>onFail\<close>
  call nothing and \<open>onTokenExpired\<close> calls its callback; and on any response each hook
  calls its callback at most once.
\<close>

theorem C6_token_expired_suppresses_other_hooks:
  "(isTokenExpired r \<longrightarrow>
      snd (onSuccess r log) = log \<and> snd (onFail r log) = log \<and>
      snd (onTokenExpired r log) = log @ [TokenExpiredCallback]) \<and>
   (\<exists>cs. snd (onSuccess r log) = log @ cs \<and> length cs \<le> 1) \<and>
   (\<exists>cs. snd (onFail r log) = log @ cs \<and> length cs \<le> 1) \<and>
   (\<exists>cs. snd (onTokenExpired r log) = log @ cs \<and> length cs \<le> 1)"
  by (simp add: onFail_def onSuccess_def onTokenExpired_def)

theorem C6_witness:
  "isTokenExpired (ApiResponse 401 ''Unauthorized'' JUndefined) \<and>
   snd (onSuccess (ApiResponse 401 ''Unauthorized'' JUndefined) []) = [] \<and>
   snd (onFail (ApiResponse 401 ''Unauthorized'' JUndefined) []) = [] \<and>
   snd (onTokenExpired (ApiResponse 401 ''Unauthorized'' JUndefined) []) = [TokenExpiredCallback]"
  using C6_token_expired_suppresses_other_hooks
          [of "ApiResponse 401 ''Unauthorized'' JUndefined" "[]"]
  by (simp add: ApiResponse_def)

text \<open>
  C10. \<open>onSuccess\<close> calls its callback exactly when the response is not token-expired,
  \<open>isSuccess\<close> holds and the payload is truthy. A successful response whose payload is
  absent or otherwise falsy (a 204 without a body) therefore never reaches the callback.
\<close>

theorem C10_success_callback_needs_truthy_data:
  "snd (onSuccess r log) =
     (if \<not> isTokenExpired r \<and> isSuccess r \<and> truthy (data r)
      then log @ [SuccessCallback (SuccessResponse (status r) (statusText r) (data r))]
      else log) \<and>
   (isSuccess r \<and> \<not> truthy (data r) \<longrightarrow> snd (onSuccess r log) = log)"
  by (simp add: onSuccess_def)

theorem C10_witness:
  "isSuccess (ApiResponse 204 ''No Content'' JUndefined) \<and>
   \<not> truthy (data (ApiResponse 204 ''No Content'' JUndefined)) \<and>
   snd (onSuccess (ApiResponse 204 ''No Content'' JUndefined) []) = []"
  using C10_success_callback_needs_truthy_data
          [of "ApiResponse 204 ''No Content'' JUndefined" "[]"]
  by (simp add: ApiResponse_def)

section \<open>Path substitution: what the loop does\<close>

lemma substituteKeys_no_placeholder:
  "(\<forall>k \<in> set ks. \<not> includes_str url (placeholder k)) \<Longrightarrow> substituteKeys ks url obj = (url, obj)"
  by (induction ks) simp_all

lemma substituteKeys_snd:
  "snd (substituteKeys ks url obj) =
     filter (\<lambda>p. fst p \<notin> set (substitutedKeys ks url obj)) obj"
proof (induction ks arbitrary: url obj)
  case Nil
  then show ?case by simp
next
  case (Cons k ks)
  show ?case
  proof (cases "includes_str url (placeholder k)")
    case True
    then show ?thesis
      using Cons.IH [of "replace_str url (placeholder k) (toString (getProp obj k))" "deleteProp k obj"]
      by (simp add: deleteProp_def conj_commute)
  next
    case False
    then show ?thesis using Cons.IH [of url obj] by simp
  qed
qed

lemma substitutedKeys_subset: "set (substitutedKeys ks url obj) \<subseteq> set ks"
  by (induction ks arbitrary: url obj) auto

lemma substitutedKeys_no_placeholder:
  "(\<forall>k \<in> set ks. \<not> includes_str url (placeholder k)) \<Longrightarrow> substitutedKeys ks url obj = []"
  by (induction ks) simp_all

lemma find_first_set:
  "find_first pat s = Some (b, a) \<Longrightarrow> set pat \<subseteq> set s"
proof (induction s arbitrary: b a)
  case Nil
  then show ?case by (simp split: if_splits)
next
  case (Cons c cs)
  show ?case
  proof (cases "take (length pat) (c # cs) = pat")
    case True
    then have "set pat = set (take (length pat) (c # cs))" by simp
    then show ?thesis using set_take_subset by fast
  next
    case False
    with Cons.prems obtain b' a' where "find_first pat cs = Some (b', a')"
      by (auto split: if_splits)
    from Cons.IH [OF this] show ?thesis by auto
  qed
qed

lemma no_brace_no_placeholder:
  "CHR ''{'' \<notin> set url \<Longrightarrow> \<not> includes_str url (placeholder k)"
  unfolding includes_str_def placeholder_def
  using find_first_set [of "''{'' @ k @ ''}''" url] by auto

lemma run_interceptors_all_return:
  "list_all (\<lambda>i. i = Returns) xs \<Longrightarrow>
   run_interceptors xs w = (None, w\<lparr> invoked := invoked w + length xs \<rparr>)"
  by (induction xs arbitrary: w) simp_all

lemma run_interceptors_throw:
  "list_all (\<lambda>i. i = Returns) pre \<Longrightarrow>
   run_interceptors (pre @ Throws ex # later) w =
     (Some ex, w\<lparr> invoked := invoked w + length pre + 1 \<rparr>)"
  by (induction pre arbitrary: w) simp_all

section \<open>What a call changes in the store and the log\<close>

lemma run_interceptors_heap [simp]: "heap (snd (run_interceptors xs w)) = heap w"
  by (induction xs w rule: run_interceptors.induct) simp_all

lemma run_interceptors_sent [simp]: "sent (snd (run_interceptors xs w)) = sent w"
  by (induction xs w rule: run_interceptors.induct) simp_all

lemma setUrlParams_hook_heap:
  "heap (snd (setUrlParams_hook c w)) =
     (case config_data c of
        None \<Rightarrow> heap w
      | Some r \<Rightarrow> (heap w)(r := snd (substituteKeys (map fst (heap w r)) (config_url c) (heap w r))))"
  by (simp add: setUrlParams_hook_def split: option.splits prod.splits)

lemma setUrlParams_hook_sent [simp]: "sent (snd (setUrlParams_hook c w)) = sent w"
  by (simp add: setUrlParams_hook_def split: option.splits prod.splits)

lemma request_world:
  "heap (snd (request e cfg w)) = heap (snd (setUrlParams_hook (request_config cfg) w))"
proof -
  obtain c1 w1 where s: "setUrlParams_hook (request_config cfg) w = (c1, w1)"
    by (cases "setUrlParams_hook (request_config cfg) w")
  obtain x w2 where r: "run_interceptors (nullish_or (config_interceptor (setQueryParams_hook c1 w1)) []) w1 = (x, w2)"
    by (cases "run_interceptors (nullish_or (config_interceptor (setQueryParams_hook c1 w1)) []) w1")
  have h: "heap w2 = heap w1"
    using run_interceptors_heap [of "nullish_or (config_interceptor (setQueryParams_hook c1 w1)) []" w1] r by simp
  show ?thesis
    by (cases x) (simp_all add: request_def s r h do_fetch_def)
qed

lemma request_heap:
  "heap (snd (request e cfg w)) =
     (case config_data cfg of
        None \<Rightarrow> heap w
      | Some r \<Rightarrow> (heap w)(r := snd (substituteKeys (map fst (heap w r)) (config_url cfg) (heap w r))))"
  by (simp add: request_world setUrlParams_hook_heap request_config_def split: option.splits)

lemma setUrlParams_heap:
  "heap (snd (setUrlParams c w)) =
     (case this_data c of
        None \<Rightarrow> heap w
      | Some r \<Rightarrow> (heap w)(r := snd (substituteKeys (map fst (heap w r)) (this_url c) (heap w r))))"
  by (simp add: setUrlParams_def split: option.splits prod.splits)

lemma send_world:
  "heap (snd (snd (send e this w))) = heap (snd (setUrlParams this w))"
proof -
  obtain c1 w1 where s: "setUrlParams this w = (c1, w1)"
    by (cases "setUrlParams this w")
  obtain x w2 where r: "run_interceptors (this_interceptor (setQueryParams c1 w1)) w1 = (x, w2)"
    by (cases "run_interceptors (this_interceptor (setQueryParams c1 w1)) w1")
  have h: "heap w2 = heap w1"
    using run_interceptors_heap [of "this_interceptor (setQueryParams c1 w1)" w1] r by simp
  show ?thesis
    by (cases x) (simp_all add: send_def s r h do_fetch_def)
qed

lemma send_heap:
  "heap (snd (snd (send e this w))) =
     (case this_data this of
        None \<Rightarrow> heap w
      | Some r \<Rightarrow> (heap w)(r := snd (substituteKeys (map fst (heap w r)) (this_url this) (heap w r))))"
  by (simp add: send_world setUrlParams_heap)

lemma new_ApiClient_axios_heap:
  "heap (snd (new_ApiClient_axios config (Some r) tok w)) =
     (heap w)(r := snd (substituteKeys (map fst (heap w r)) (ac_url config) (heap w r)))"
  by (simp add: new_ApiClient_axios_def setUrlParams_axios_def Let_def split: prod.splits)

lemma setUrlParams_hook_fields [simp]:
  "sent (snd (setUrlParams_hook c w)) = sent w"
  "invoked (snd (setUrlParams_hook c w)) = invoked w"
  "config_interceptor (fst (setUrlParams_hook c w)) = config_interceptor c"
  "config_method (fst (setUrlParams_hook c w)) = config_method c"
  "config_data (fst (setUrlParams_hook c w)) = config_data c"
  "config_token (fst (setUrlParams_hook c w)) = config_token c"
  "config_headers (fst (setUrlParams_hook c w)) = config_headers c"
  by (simp_all add: setUrlParams_hook_def split: option.splits prod.splits)

lemma setQueryParams_hook_fields [simp]:
  "config_interceptor (setQueryParams_hook c w) = config_interceptor c"
  "config_method (setQueryParams_hook c w) = config_method c"
  "config_data (setQueryParams_hook c w) = config_data c"
  "config_token (setQueryParams_hook c w) = config_token c"
  "config_headers (setQueryParams_hook c w) = config_headers c"
  by (simp_all add: setQueryParams_hook_def split: option.splits)

lemma request_init_invoked [simp]:
  "request_init e c (w\<lparr> invoked := n \<rparr>) = request_init e c w"
  by (simp add: request_init_def split: option.splits)

lemma request_returning:
  assumes "list_all (\<lambda>i. i = Returns) (nullish_or (config_interceptor cfg) [])"
  shows "request e cfg w =
     (let c1 = fst (setUrlParams_hook (request_config cfg) w);
          w1 = snd (setUrlParams_hook (request_config cfg) w);
          req = request_init e (setQueryParams_hook c1 w1) w1
      in (request_settle (fetch e (length (sent w)) req),
          w1\<lparr> invoked := invoked w + length (nullish_or (config_interceptor cfg) []),
              sent := sent w @ [req] \<rparr>))"
proof -
  obtain c1 w1 where s: "setUrlParams_hook (request_config cfg) w = (c1, w1)"
    by (cases "setUrlParams_hook (request_config cfg) w")
  have f: "sent w1 = sent w" "invoked w1 = invoked w" "config_interceptor c1 = config_interceptor (request_config cfg)"
    using setUrlParams_hook_fields(1,2,3) [of "request_config cfg" w] s by simp_all
  have i: "config_interceptor (request_config cfg) = Some (nullish_or (config_interceptor cfg) [])"
    by (simp add: request_config_def)
  have n: "nullish_or (Some xs) [] = xs" for xs :: "interceptor list"
    by (simp add: nullish_or_def)
  show ?thesis
    using run_interceptors_all_return [OF assms, of w1]
    by (simp add: request_def s f i n do_fetch_def Let_def)
qed

lemma request_throwing:
  assumes "nullish_or (config_interceptor cfg) [] = pre @ Throws ex # later"
      and "list_all (\<lambda>i. i = Returns) pre"
  shows "request e cfg w =
     (request_catch ex,
      (snd (setUrlParams_hook (request_config cfg) w))\<lparr> invoked := invoked w + length pre + 1 \<rparr>)"
proof -
  obtain c1 w1 where s: "setUrlParams_hook (request_config cfg) w = (c1, w1)"
    by (cases "setUrlParams_hook (request_config cfg) w")
  have f: "sent w1 = sent w" "invoked w1 = invoked w" "config_interceptor c1 = config_interceptor (request_config cfg)"
    using setUrlParams_hook_fields(1,2,3) [of "request_config cfg" w] s by simp_all
  have i: "config_interceptor (request_config cfg) = Some (nullish_or (config_interceptor cfg) [])"
    by (simp add: request_config_def)
  have n: "nullish_or (Some xs) [] = xs" for xs :: "interceptor list"
    by (simp add: nullish_or_def)
  show ?thesis
    using run_interceptors_throw [OF assms(2), of ex later w1]
    by (simp add: request_def s f i n assms(1))
qed

lemma setUrlParams_fields [simp]:
  "sent (snd (setUrlParams c w)) = sent w"
  "invoked (snd (setUrlParams c w)) = invoked w"
  "this_interceptor (fst (setUrlParams c w)) = this_interceptor c"
  "this_httpMethod (fst (setUrlParams c w)) = this_httpMethod c"
  "this_data (fst (setUrlParams c w)) = this_data c"
  "this_headers (fst (setUrlParams c w)) = this_headers c"
  "this_token (fst (setUrlParams c w)) = this_token c"
  by (simp_all add: setUrlParams_def split: option.splits prod.splits)

lemma setQueryParams_fields [simp]:
  "this_interceptor (setQueryParams c w) = this_interceptor c"
  "this_httpMethod (setQueryParams c w) = this_httpMethod c"
  "this_headers (setQueryParams c w) = this_headers c"
  "this_token (setQueryParams c w) = this_token c"
  by (simp_all add: setQueryParams_def split: option.splits)

lemma send_returning:
  assumes "list_all (\<lambda>i. i = Returns) (this_interceptor this)"
  shows "send e this w =
     (let c1 = fst (setUrlParams this w);
          w1 = snd (setUrlParams this w);
          req = send_init (setQueryParams c1 w1) w1
      in (send_settle (fetch e (length (sent w)) req),
          setQueryParams c1 w1,
          w1\<lparr> invoked := invoked w + length (this_interceptor this),
              sent := sent w @ [req] \<rparr>))"
proof -
  obtain c1 w1 where s: "setUrlParams this w = (c1, w1)"
    by (cases "setUrlParams this w")
  have f: "sent w1 = sent w" "invoked w1 = invoked w" "this_interceptor c1 = this_interceptor this"
    using setUrlParams_fields(1,2,3) [of this w] s by simp_all
  show ?thesis
    using run_interceptors_all_return [OF assms, of w1]
    by (simp add: send_def s f do_fetch_def Let_def)
qed

lemma send_throwing:
  assumes "this_interceptor this = pre @ Throws ex # later"
      and "list_all (\<lambda>i. i = Returns) pre"
  shows "send e this w =
     (send_catch ex,
      setQueryParams (fst (setUrlParams this w)) (snd (setUrlParams this w)),
      (snd (setUrlParams this w))\<lparr> invoked := invoked w + length pre + 1 \<rparr>)"
proof -
  obtain c1 w1 where s: "setUrlParams this w = (c1, w1)"
    by (cases "setUrlParams this w")
  have f: "sent w1 = sent w" "invoked w1 = invoked w" "this_interceptor c1 = this_interceptor this"
    using setUrlParams_fields(1,2,3) [of this w] s by simp_all
  show ?thesis
    using run_interceptors_throw [OF assms(2), of ex later w1]
    by (simp add: send_def s f assms(1))
qed

section \<open>The dispatched request\<close>

lemma JSON_stringify_object: "JSON_stringify (JObj obj) \<noteq> None"
  by simp

lemma request_config_fields [simp]:
  "config_method (request_config c) = config_method c"
  "config_url (request_config c) = config_url c"
  "config_data (request_config c) = config_data c"
  "config_token (request_config c) = config_token c"
  "config_headers (request_config c) =
     Some (nullish_or (config_headers c) [(''Content-Type'', ''application/json'')])"
  "config_interceptor (request_config c) = Some (nullish_or (config_interceptor c) [])"
  by (simp_all add: request_config_def)

lemma request_headers_same [simp]:
  "request_headers (setQueryParams_hook c w) = request_headers c"
  "request_headers (c\<lparr> config_url := u \<rparr>) = request_headers c"
  by (simp_all add: request_headers_def split: option.splits)

lemma setQueryParams_hook_url:
  "config_url (setQueryParams_hook c w) =
     (case config_data c of
        None \<Rightarrow> config_url c
      | Some r \<Rightarrow>
          if config_method c \<noteq> get then config_url c
          else config_url c @ ''?'' @ URLSearchParams_toString (heap w r))"
  by (simp add: setQueryParams_hook_def split: option.splits)

lemma setQueryParams_url:
  "this_url (setQueryParams c w) =
     (case this_data c of
        None \<Rightarrow> this_url c
      | Some r \<Rightarrow>
          if this_httpMethod c \<noteq> get then this_url c
          else this_url c @ ''?'' @ URLSearchParams_toString (heap w r))"
  by (simp add: setQueryParams_def split: option.splits)

lemma setQueryParams_data:
  "this_data (setQueryParams c w) =
     (if this_httpMethod c \<noteq> get then this_data c else None)"
  by (simp add: setQueryParams_def split: option.splits)

lemma setUrlParams_hook_Some:
  "config_data c = Some r \<Longrightarrow>
   substituteKeys (map fst (heap w r)) (config_url c) (heap w r) = (u, obj) \<Longrightarrow>
   setUrlParams_hook c w = (c\<lparr> config_url := u \<rparr>, w\<lparr> heap := (heap w)(r := obj) \<rparr>)"
  by (simp add: setUrlParams_hook_def)

lemma setUrlParams_Some:
  "this_data c = Some r \<Longrightarrow>
   substituteKeys (map fst (heap w r)) (this_url c) (heap w r) = (u, obj) \<Longrightarrow>
   setUrlParams c w = (c\<lparr> this_url := u \<rparr>, w\<lparr> heap := (heap w)(r := obj) \<rparr>)"
  by (simp add: setUrlParams_def)

lemma request_sent_Some:
  assumes "list_all (\<lambda>i. i = Returns) (nullish_or (config_interceptor cfg) [])"
      and "config_data cfg = Some r"
      and "substituteKeys (map fst (heap w r)) (config_url cfg) (heap w r) = (u, obj)"
  shows "sent (snd (request e cfg w)) = sent w @
        [\<lparr> req_method = config_method cfg,
           req_url = nullish_or (REACT_APP_API_URL e) [] @ u @
             (if config_method cfg = get then ''?'' @ URLSearchParams_toString obj else []),
           req_headers = request_headers (request_config cfg),
           req_body = (if config_method cfg = get then None else JSON_stringify (JObj obj)) \<rparr>]"
proof -
  have d: "config_data (request_config cfg) = Some r" "config_url (request_config cfg) = config_url cfg"
    using assms(2) by simp_all
  have s: "setUrlParams_hook (request_config cfg) w =
             ((request_config cfg)\<lparr> config_url := u \<rparr>, w\<lparr> heap := (heap w)(r := obj) \<rparr>)"
    using setUrlParams_hook_Some [of "request_config cfg" r w u obj] d assms(3) by simp
  show ?thesis
    by (simp add: request_returning [OF assms(1)] s Let_def request_init_def
          setQueryParams_hook_url assms(2))
qed

lemma request_sent_None:
  assumes "list_all (\<lambda>i. i = Returns) (nullish_or (config_interceptor cfg) [])"
      and "config_data cfg = None"
  shows "sent (snd (request e cfg w)) = sent w @
        [\<lparr> req_method = config_method cfg,
           req_url = nullish_or (REACT_APP_API_URL e) [] @ config_url cfg,
           req_headers = request_headers (request_config cfg),
           req_body = None \<rparr>]"
proof -
  have s: "setUrlParams_hook (request_config cfg) w = (request_config cfg, w)"
    using assms(2) by (simp add: setUrlParams_hook_def)
  show ?thesis
    by (simp add: request_returning [OF assms(1)] s Let_def request_init_def
          setQueryParams_hook_url assms(2))
qed

lemma send_sent_Some:
  assumes "list_all (\<lambda>i. i = Returns) (this_interceptor this)"
      and "this_data this = Some r"
      and "substituteKeys (map fst (heap w r)) (this_url this) (heap w r) = (u, obj)"
  shows "sent (snd (snd (send e this w))) = sent w @
        [\<lparr> req_method = this_httpMethod this,
           req_url = u @
             (if this_httpMethod this = get then ''?'' @ URLSearchParams_toString obj else []),
           req_headers = this_headers this,
           req_body = (if this_httpMethod this = get then None else JSON_stringify (JObj obj)) \<rparr>]"
  by (simp add: send_returning [OF assms(1)] setUrlParams_Some [OF assms(2,3)] Let_def
        send_init_def setQueryParams_url setQueryParams_data assms(2))

lemma send_sent_None:
  assumes "list_all (\<lambda>i. i = Returns) (this_interceptor this)"
      and "this_data this = None"
  shows "sent (snd (snd (send e this w))) = sent w @
        [\<lparr> req_method = this_httpMethod this,
           req_url = this_url this,
           req_headers = this_headers this,
           req_body = None \<rparr>]"
proof -
  have s: "setUrlParams this w = (this, w)"
    using assms(2) by (simp add: setUrlParams_def)
  show ?thesis
    by (simp add: send_returning [OF assms(1)] s Let_def send_init_def setQueryParams_url
          setQueryParams_data assms(2))
qed

section \<open>Refreshing the token\<close>

lemma refreshAccessToken_axios_fails:
  assumes "refreshFails_axios
             (adapter e (length (calls w))
                (RefreshCall (refresh_url e) (refresh_method e) (refreshToken (userData w))))"
  shows "refreshAccessToken_axios e w =
           ((False, JUndefined),
            w\<lparr> calls := calls w @
                 [RefreshCall (refresh_url e) (refresh_method e) (refreshToken (userData w))] \<rparr>)"
proof (cases "adapter e (length (calls w))
                (RefreshCall (refresh_url e) (refresh_method e) (refreshToken (userData w)))")
  case (Received s t d)
  with assms have f: "\<not> (200 \<le> s \<and> s < 300) \<or> \<not> truthy (optProp d ''accessToken'') \<or>
          \<not> truthy (optProp d ''refreshToken'')"
    by (simp add: refreshFails_axios_def)
  show ?thesis
  proof (cases "200 \<le> s \<and> s < 300")
    case True
    with f Received show ?thesis
      by (cases d) (auto simp: refreshAccessToken_axios_def do_axios_def settle_def getUserData_def Let_def)
  next
    case False
    then have "settle (Received s t d) =
            Inl (AxiosError (''Request failed with status code '' @ int_to_string s)
                   (Some (AxiosResponse s t d)))"
      by (simp add: settle_def)
    with Received show ?thesis
      by (simp add: refreshAccessToken_axios_def do_axios_def getUserData_def)
  qed
next
  case (NetworkFailure m)
  then show ?thesis
    by (simp add: refreshAccessToken_axios_def do_axios_def settle_def getUserData_def)
next
  case OtherFailure
  then show ?thesis
    by (simp add: refreshAccessToken_axios_def do_axios_def settle_def getUserData_def)
qed

lemma responseInterceptors_no_response:
  "responseInterceptors k instance e (Inl (AxiosError m None, c), w) =
     Some (Inl (AxiosError m None, c), w)"
  by (induction k) (simp_all add: rejected_handler_def)

lemma send_axios_network_failure:
  assumes "adapter e (length (calls w)) (BusinessCall (send_axios_config this w)) = NetworkFailure m"
  shows "send_axios (Suc n) e this w =
           Some (ApiResponse 500 m JUndefined,
                 w\<lparr> calls := calls w @ [BusinessCall (send_axios_config this w)] \<rparr>)"
  using assms
  by (simp add: send_axios_def do_axios_def settle_def nullish_or_def
        responseInterceptors_no_response)

lemma new_ApiClient_axios_registered:
  assumes "new_ApiClient_axios config body tok w = (Inr this, w')"
  shows "ax_registered this = 0"
  using assms
  by (auto simp: new_ApiClient_axios_def Let_def split: option.splits prod.splits)

lemma int_to_string_401: "int_to_string 401 = ''401''"
  by code_simp

lemma send_axios_failed_refresh:
  assumes "ax_registered this = 0"
      and "adapter e (length (calls w)) (BusinessCall (send_axios_config this w)) = Received 401 t d"
      and "refreshFails_axios
             (adapter e (Suc (length (calls w)))
                (RefreshCall (refresh_url e) (refresh_method e) (refreshToken (userData w))))"
  shows "send_axios (Suc n) e this w =
           Some (ApiResponse 401 ''Request failed with status code 401'' JUndefined,
                 w\<lparr> calls := calls w @
                      [BusinessCall (send_axios_config this w),
                       RefreshCall (refresh_url e) (refresh_method e) (refreshToken (userData w))] \<rparr>)"
proof -
  let ?w1 = "w\<lparr> calls := calls w @ [BusinessCall (send_axios_config this w)] \<rparr>"
  have r: "refreshAccessToken_axios e ?w1 =
           ((False, JUndefined),
            ?w1\<lparr> calls := calls ?w1 @
                 [RefreshCall (refresh_url e) (refresh_method e) (refreshToken (userData ?w1))] \<rparr>)"
    using assms(3) by (intro refreshAccessToken_axios_fails) simp
  show ?thesis
    using assms(1,2)
    by (simp add: send_axios_def setInterceptors_def do_axios_def settle_def rejected_handler_def
          r nullish_or_def int_to_string_401)
qed

lemma send_dispatch:
  assumes "list_all (\<lambda>i. i = Returns) (this_interceptor this)"
  shows "fst (send e this w) = send_settle (fetch e (length (sent w)) (send_dispatched this w))"
    and "sent (snd (snd (send e this w))) = sent w @ [send_dispatched this w]"
    and "this_headers (fst (snd (send e this w))) = this_headers this"
    and "this_token (fst (snd (send e this w))) = this_token this"
  by (simp_all add: send_returning [OF assms] Let_def send_dispatched_def split_beta)

lemma request_dispatch:
  assumes "list_all (\<lambda>i. i = Returns) (nullish_or (config_interceptor cfg) [])"
  shows "fst (request e cfg w) =
           request_settle (fetch e (length (sent w)) (request_dispatched e cfg w))"
    and "sent (snd (request e cfg w)) = sent w @ [request_dispatched e cfg w]"
  by (simp_all add: request_returning [OF assms] Let_def request_dispatched_def split_beta)

lemma alloc_sent [simp]: "sent (snd (alloc obj w)) = sent w"
  by (simp add: alloc_def)

lemma refresh_client_interceptor [simp]:
  "this_interceptor (setData r (setUrl u (setMethod m (new_ApiClient e b)))) = []"
  by (simp add: setData_def setUrl_def setMethod_def new_ApiClient_def)

lemma send_settle_fails:
  "refreshFails_fetch out \<Longrightarrow>
   \<exists>response. send_settle out = Inr response \<and>
      (\<not> isSuccess response \<or> \<not> truthy (optProp (data response) ''accessToken'')) \<and>
      optProp (data response) ''accessToken'' = refreshedToken out"
  by (auto simp: refreshFails_fetch_def refreshedToken_def send_settle_def send_catch_def
        TypeError_def SyntaxError_def ApiResponse_def split: fetch_outcome.splits option.splits)

lemma send_settle_succeeds:
  "\<not> refreshFails_fetch out \<Longrightarrow>
   \<exists>response. send_settle out = Inr response \<and>
      isSuccess response \<and> truthy (optProp (data response) ''accessToken'') \<and>
      optProp (data response) ''accessToken'' = refreshedToken out"
  by (auto simp: refreshFails_fetch_def refreshedToken_def send_settle_def send_catch_def
        TypeError_def SyntaxError_def ApiResponse_def split: fetch_outcome.splits option.splits)

lemma refreshAccessToken_sent:
  "sent (snd (snd (refreshAccessToken e this w))) = sent w @ [refresh_dispatched e w]"
proof -
  obtain r w1 where a: "alloc [(''refreshToken'', JStr ''refresh'')] w = (r, w1)"
    by (cases "alloc [(''refreshToken'', JStr ''refresh'')] w")
  let ?c = "setData r (setUrl [] (setMethod post (new_ApiClient e None)))"
  have s1: "sent w1 = sent w" using alloc_sent [of "[(''refreshToken'', JStr ''refresh'')]" w] a by simp
  have i: "list_all (\<lambda>i. i = Returns) (this_interceptor ?c)" by simp
  obtain x c' w2 where s: "send e ?c w1 = (x, c', w2)" by (cases "send e ?c w1")
  have "sent w2 = sent w1 @ [send_dispatched ?c w1]"
    using send_dispatch(2) [OF i, of e w1] s by simp
  then show ?thesis
    by (cases x) (simp_all add: refreshAccessToken_def a s s1 refresh_dispatched_def)
qed

lemma refreshAccessToken_fails:
  assumes "refreshFails_fetch (fetch e (length (sent w)) (refresh_dispatched e w))"
  shows "\<exists>b t w'. refreshAccessToken e this w =
            (Inr (b, t),
             this\<lparr> this_token := refreshedToken (fetch e (length (sent w)) (refresh_dispatched e w)) \<rparr>,
             w') \<and> (\<not> b \<or> \<not> truthy t)"
proof -
  obtain r w1 where a: "alloc [(''refreshToken'', JStr ''refresh'')] w = (r, w1)"
    by (cases "alloc [(''refreshToken'', JStr ''refresh'')] w")
  let ?c = "setData r (setUrl [] (setMethod post (new_ApiClient e None)))"
  have s1: "sent w1 = sent w" using alloc_sent [of "[(''refreshToken'', JStr ''refresh'')]" w] a by simp
  have i: "list_all (\<lambda>i. i = Returns) (this_interceptor ?c)" by simp
  have d: "refresh_dispatched e w = send_dispatched ?c w1"
    by (simp add: refresh_dispatched_def a)
  obtain x c' w2 where s: "send e ?c w1 = (x, c', w2)" by (cases "send e ?c w1")
  have x: "x = send_settle (fetch e (length (sent w)) (refresh_dispatched e w))"
    using send_dispatch(1) [OF i, of e w1] s s1 d by simp
  from send_settle_fails [OF assms] x obtain response where
    r: "x = Inr response"
       "\<not> isSuccess response \<or> \<not> truthy (optProp (data response) ''accessToken'')"
       "optProp (data response) ''accessToken'' =
          refreshedToken (fetch e (length (sent w)) (refresh_dispatched e w))"
    by auto
  show ?thesis
    using r by (simp add: refreshAccessToken_def a s)
qed

lemma refreshAccessToken_succeeds:
  assumes "\<not> refreshFails_fetch (fetch e (length (sent w)) (refresh_dispatched e w))"
  shows "\<exists>w'. refreshAccessToken e this w =
            (Inr (True, refreshedToken (fetch e (length (sent w)) (refresh_dispatched e w))),
             this\<lparr> this_token := refreshedToken (fetch e (length (sent w)) (refresh_dispatched e w)) \<rparr>,
             w') \<and> truthy (refreshedToken (fetch e (length (sent w)) (refresh_dispatched e w)))"
proof -
  obtain r w1 where a: "alloc [(''refreshToken'', JStr ''refresh'')] w = (r, w1)"
    by (cases "alloc [(''refreshToken'', JStr ''refresh'')] w")
  let ?c = "setData r (setUrl [] (setMethod post (new_ApiClient e None)))"
  have s1: "sent w1 = sent w" using alloc_sent [of "[(''refreshToken'', JStr ''refresh'')]" w] a by simp
  have i: "list_all (\<lambda>i. i = Returns) (this_interceptor ?c)" by simp
  have d: "refresh_dispatched e w = send_dispatched ?c w1"
    by (simp add: refresh_dispatched_def a)
  obtain x c' w2 where s: "send e ?c w1 = (x, c', w2)" by (cases "send e ?c w1")
  have x: "x = send_settle (fetch e (length (sent w)) (refresh_dispatched e w))"
    using send_dispatch(1) [OF i, of e w1] s s1 d by simp
  from send_settle_succeeds [OF assms] x obtain response where
    r: "x = Inr response" "isSuccess response"
       "truthy (optProp (data response) ''accessToken'')"
       "optProp (data response) ''accessToken'' =
          refreshedToken (fetch e (length (sent w)) (refresh_dispatched e w))"
    by auto
  show ?thesis
    using r by (simp add: refreshAccessToken_def a s)
qed

lemma checkResponse_failed_refresh:
  assumes "resp_status response = 401"
      and "refreshFails_fetch (fetch e (length (sent w)) (refresh_dispatched e w))"
  shows "fst (checkResponse e this response w) = Inr (ApiResponse 401 ''Unauthorized'' JUndefined)"
    and "fst (snd (checkResponse e this response w)) =
           this\<lparr> this_token := refreshedToken (fetch e (length (sent w)) (refresh_dispatched e w)) \<rparr>"
    and "sent (snd (snd (checkResponse e this response w))) = sent w @ [refresh_dispatched e w]"
proof -
  from refreshAccessToken_fails [OF assms(2), of this] obtain b t w' where
    r: "refreshAccessToken e this w =
            (Inr (b, t),
             this\<lparr> this_token := refreshedToken (fetch e (length (sent w)) (refresh_dispatched e w)) \<rparr>,
             w')" "\<not> b \<or> \<not> truthy t"
    by blast
  have s: "sent w' = sent w @ [refresh_dispatched e w]"
    using refreshAccessToken_sent [of e this w] r(1) by simp
  show "fst (checkResponse e this response w) = Inr (ApiResponse 401 ''Unauthorized'' JUndefined)"
    using r assms(1) by (auto simp: checkResponse_def)
  show "fst (snd (checkResponse e this response w)) =
           this\<lparr> this_token := refreshedToken (fetch e (length (sent w)) (refresh_dispatched e w)) \<rparr>"
    using r assms(1) by (auto simp: checkResponse_def)
  show "sent (snd (snd (checkResponse e this response w))) = sent w @ [refresh_dispatched e w]"
    using r s assms(1) by (auto simp: checkResponse_def)
qed

lemma checkResponse_retries_once:
  assumes "resp_status response = 401"
      and "\<not> refreshFails_fetch (fetch e (length (sent w)) (refresh_dispatched e w))"
      and "list_all (\<lambda>i. i = Returns) (this_interceptor this)"
  shows "\<exists>retry.
           sent (snd (snd (checkResponse e this response w))) =
             sent w @ [refresh_dispatched e w, retry] \<and>
           fst (checkResponse e this response w) =
             send_settle (fetch e (Suc (length (sent w))) retry)"
proof -
  let ?t = "refreshedToken (fetch e (length (sent w)) (refresh_dispatched e w))"
  from refreshAccessToken_succeeds [OF assms(2), of this] obtain w' where
    r: "refreshAccessToken e this w = (Inr (True, ?t), this\<lparr> this_token := ?t \<rparr>, w')"
       "truthy ?t"
    by blast
  have s: "sent w' = sent w @ [refresh_dispatched e w]"
    using refreshAccessToken_sent [of e this w] r(1) by simp
  let ?c = "setToken ?t (this\<lparr> this_token := ?t \<rparr>)"
  have i: "list_all (\<lambda>i. i = Returns) (this_interceptor ?c)"
    using assms(3) by (simp add: setToken_def)
  have c: "checkResponse e this response w = send e ?c w'"
    using r assms(1) by (simp add: checkResponse_def)
  show ?thesis
    using send_dispatch(1,2) [OF i, of e w'] by (simp add: c s exI [of _ "send_dispatched ?c w'"])
qed

lemma axiosInstance_always_401_never_settles:
  "axiosInstance n (Suc k) envAlways401 rq w = None"
proof (induction n arbitrary: rq w)
  case 0
  then show ?case by simp
next
  case (Suc n)
  have r: "refreshAccessToken_axios envAlways401 w' =
             ((True, JStr ''a1''),
              saveUserData (JStr ''a1'') (JStr ''r1'')
                (w'\<lparr> calls := calls w' @
                     [RefreshCall ''/user/refresh'' post (refreshToken (userData w'))] \<rparr>))" for w'
    by (simp add: refreshAccessToken_axios_def do_axios_def settle_def envAlways401_def
          tokens1_def getUserData_def getProp_def Let_def)
  have a: "adapter envAlways401 i (BusinessCall rq) = Received 401 ''Unauthorized'' JNull" for i
    by (simp add: envAlways401_def)
  show ?case
    by (simp add: do_axios_def settle_def rejected_handler_def a r Suc.IH)
qed

lemma send_axios_always_401_never_returns: "send_axios n envAlways401 ax w = None"
  by (simp add: send_axios_def setInterceptors_def axiosInstance_always_401_never_settles)

text \<open>
  Two calls of \<^verbatim>\<open>send\<close> on one client. The first is answered 200; after it the client
  has one response interceptor on its instance, and the second \<^verbatim>\<open>send\<close> registers
  another. The business request of the second \<^verbatim>\<open>send\<close> is answered 401 and the refresh
  call fails: the first interceptor rejects with the error, whose response still has
  status 401, so the second interceptor calls the refresh endpoint again, and, this call
  succeeding, saves the tokens and retries. A new client in the place of the second
  \<^verbatim>\<open>send\<close> returns the 401 after one refresh call.
\<close>

lemma send_axios_second_send_refreshes_again:
  "(case send_axios 2 envRefreshDownOnce axiosB wA of
      None \<Rightarrow> None
    | Some (r1, w1) \<Rightarrow>
        map_option (\<lambda>(r, w). (status r1, status r, refreshCalls w, businessCalls w, userData w))
          (send_axios 2 envRefreshDownOnce (setInterceptors axiosB) w1)) =
   Some (200, 200, 2, 3, \<lparr> accessToken = JStr ''a1'', refreshToken = JStr ''r1'' \<rparr>) \<and>
   (case send_axios 2 envRefreshDownOnce axiosB wA of
      None \<Rightarrow> None
    | Some (r1, w1) \<Rightarrow>
        map_option (\<lambda>(r, w). (status r1, status r, refreshCalls w, businessCalls w, userData w))
          (send_axios 2 envRefreshDownOnce axiosB w1)) =
   Some (200, 401, 1, 2, \<lparr> accessToken = JStr ''a0'', refreshToken = JStr ''r0'' \<rparr>)"
  by code_simp


section \<open>One refresh for each call\<close>

text \<open>
  C1. The spec allows one refresh for each call: a 401 from the retried request is to be
  returned as it is. The fluent client's \<^verbatim>\<open>checkResponse\<close> does that (lemma
  \<open>checkResponse_retries_once\<close>: one refresh request, one retry, and the outcome of the
  retry is the result). The client on axios does not: its retry is a call of the instance
  that carries the interceptor, so a 401 from the retry enters the second handler again.
  On the run below the server answers 401 to the first two business requests and 200 to
  the third, and the refresh endpoint hands out tokens each time: \<^verbatim>\<open>send\<close> calls the
  refresh endpoint twice and the business endpoint three times, and returns the 200.
  Where every business request is answered 401 the call never returns (lemma
  \<open>send_axios_always_401_never_returns\<close>).
\<close>

theorem C1_second_401_triggers_a_second_refresh:
  "map_option (\<lambda>(r, w). (status r, refreshCalls w, businessCalls w, userData w))
     (send_axios 3 envTwice401 axiosB wA) =
   Some (200, 2, 3, \<lparr> accessToken = JStr ''a1'', refreshToken = JStr ''r1'' \<rparr>)"
  by code_simp


section \<open>The caller's parameter object\<close>

text \<open>
  C3, as the code has it. Path substitution works on the caller's own object, not on a
  copy. When the call returns (\<^verbatim>\<open>request\<close> of the hook, \<^verbatim>\<open>send\<close> of the fluent client,
  the constructor of the client on axios), the object has lost the keys that were
  substituted into the URL and keeps every other property, with its value and in the
  same order. Building the query string or the body changes nothing in it.
\<close>

theorem C3_path_substitution_deletes_from_the_callers_mapping:
  "(config_data cfg = Some r \<longrightarrow>
      heap (snd (request e cfg w)) r =
        filter (\<lambda>p. fst p \<notin> set (substitutedKeys (map fst (heap w r)) (config_url cfg) (heap w r)))
          (heap w r)) \<and>
   (this_data this = Some r \<longrightarrow>
      heap (snd (snd (send e this w))) r =
        filter (\<lambda>p. fst p \<notin> set (substitutedKeys (map fst (heap w r)) (this_url this) (heap w r)))
          (heap w r)) \<and>
   heap (snd (new_ApiClient_axios config (Some r) tok w)) r =
     filter (\<lambda>p. fst p \<notin> set (substitutedKeys (map fst (heap w r)) (ac_url config) (heap w r)))
       (heap w r)"
  by (simp add: request_heap send_heap new_ApiClient_axios_heap substituteKeys_snd)

text \<open>Scenario A of the spec on the hook: the caller's \<^verbatim>\<open>{id: 42, active: true}\<close> is
  \<^verbatim>\<open>{active: true}\<close> after the call.\<close>

theorem C3_counterexample:
  "heap wA 0 = [(''id'', JNum 42), (''active'', JBool True)] \<and>
   heap (snd (request envOk cfgA wA)) 0 = [(''active'', JBool True)]"
  by code_simp

text \<open>Scenario A of the spec on the three clients.\<close>

theorem C3_witness:
  "config_data cfgA = Some 0 \<and> this_data clientA = Some 0 \<and>
   heap (snd (request envOk cfgA wA)) 0 = [(''active'', JBool True)] \<and>
   heap (snd (snd (send envOk clientA wA))) 0 = [(''active'', JBool True)] \<and>
   heap (snd (new_ApiClient_axios configA (Some 0) None wA)) 0 = [(''active'', JBool True)]"
proof -
  have h: "config_data cfgA = Some 0" "this_data clientA = Some 0"
    by code_simp+
  have f: "filter (\<lambda>p. fst p \<notin> set (substitutedKeys (map fst (heap wA 0)) (config_url cfgA) (heap wA 0)))
             (heap wA 0) = [(''active'', JBool True)]"
          "filter (\<lambda>p. fst p \<notin> set (substitutedKeys (map fst (heap wA 0)) (this_url clientA) (heap wA 0)))
             (heap wA 0) = [(''active'', JBool True)]"
          "filter (\<lambda>p. fst p \<notin> set (substitutedKeys (map fst (heap wA 0)) (ac_url configA) (heap wA 0)))
             (heap wA 0) = [(''active'', JBool True)]"
    by code_simp+
  from C3_path_substitution_deletes_from_the_callers_mapping
         [of cfgA 0 envOk wA clientA configA None] h f
  show ?thesis by simp
qed


section \<open>A refresh that fails\<close>

text \<open>
  C4, as the code has it. When the refresh fails, \<^verbatim>\<open>checkResponse\<close> of the fluent client
  returns \<^verbatim>\<open>ApiResponse(401, "Unauthorized", undefined)\<close> after the refresh request alone
  and leaves the headers, the \<^verbatim>\<open>Authorization\<close> header among them, as they were. The
  client on axios, on the first \<^verbatim>\<open>send\<close> of a client (no response interceptor is on its
  instance before the call, as the constructor leaves it: lemma
  \<open>new_ApiClient_axios_registered\<close>), makes the business call and the refresh call and no
  other, writes nothing to the token store, and \<^verbatim>\<open>send\<close> returns status 401 without
  data, with the message of the error of the business call as status text. From the
  second \<^verbatim>\<open>send\<close> of a client on, the rejection after the failed refresh enters the
  second handler of the next interceptor, which refreshes again (lemma
  \<open>send_axios_second_send_refreshes_again\<close>). (What becomes of the field
  \<^verbatim>\<open>this.token\<close> of the fluent client is the second part of lemma
  \<open>checkResponse_failed_refresh\<close>.)
\<close>

theorem C4_failed_refresh:
  "(resp_status response = 401 \<and>
    refreshFails_fetch (fetch e (length (sent w)) (refresh_dispatched e w)) \<longrightarrow>
      fst (checkResponse e this response w) = Inr (ApiResponse 401 ''Unauthorized'' JUndefined) \<and>
      this_headers (fst (snd (checkResponse e this response w))) = this_headers this \<and>
      sent (snd (snd (checkResponse e this response w))) = sent w @ [refresh_dispatched e w]) \<and>
   (ax_registered ax = 0 \<and>
    adapter e (length (calls w)) (BusinessCall (send_axios_config ax w)) = Received 401 t d \<and>
    refreshFails_axios
      (adapter e (Suc (length (calls w)))
         (RefreshCall (refresh_url e) (refresh_method e) (refreshToken (userData w)))) \<longrightarrow>
      send_axios (Suc n) e ax w =
        Some (ApiResponse 401 ''Request failed with status code 401'' JUndefined,
              w\<lparr> calls := calls w @
                   [BusinessCall (send_axios_config ax w),
                    RefreshCall (refresh_url e) (refresh_method e) (refreshToken (userData w))] \<rparr>))"
  using checkResponse_failed_refresh [of response e w this]
        send_axios_failed_refresh [of ax e w t d n]
  by simp

text \<open>The client on axios, the business request answered 401 and the refresh endpoint
  down: the status text of the result is the message of the error, not \<open>Unauthorized\<close>.\<close>

theorem C4_counterexample:
  "map_option fst (send_axios 1 envRefreshDown axiosB wA) =
     Some (ApiResponse 401 ''Request failed with status code 401'' JUndefined) \<and>
   map_option fst (send_axios 1 envRefreshDown axiosB wA) \<noteq>
     Some (ApiResponse 401 ''Unauthorized'' JUndefined)"
  by code_simp

text \<open>The refresh call fails in the transport, for the fluent client and for the client on axios.\<close>

theorem C4_witness:
  "resp_status (Response 401 ''Unauthorized'' None) = 401 \<and>
   refreshFails_fetch (fetch envDown (length (sent wA)) (refresh_dispatched envDown wA)) \<and>
   fst (checkResponse envDown clientB (Response 401 ''Unauthorized'' None) wA) =
     Inr (ApiResponse 401 ''Unauthorized'' JUndefined) \<and>
   this_headers (fst (snd (checkResponse envDown clientB (Response 401 ''Unauthorized'' None) wA))) =
     this_headers clientB \<and>
   ax_registered axiosB = 0 \<and>
   adapter envRefreshDown (length (calls wA)) (BusinessCall (send_axios_config axiosB wA)) =
     Received 401 ''Unauthorized'' JNull \<and>
   refreshFails_axios
     (adapter envRefreshDown (Suc (length (calls wA)))
        (RefreshCall (refresh_url envRefreshDown) (refresh_method envRefreshDown)
           (refreshToken (userData wA)))) \<and>
   send_axios 1 envRefreshDown axiosB wA =
     Some (ApiResponse 401 ''Request failed with status code 401'' JUndefined,
           wA\<lparr> calls := [BusinessCall (send_axios_config axiosB wA),
                          RefreshCall ''/user/refresh'' post (JStr ''r0'')] \<rparr>)"
proof -
  have h1: "resp_status (Response 401 ''Unauthorized'' None) = 401" by simp
  have h2: "refreshFails_fetch (fetch envDown (length (sent wA)) (refresh_dispatched envDown wA))"
    by (simp add: envDown_def refreshFails_fetch_def)
  have h0: "ax_registered axiosB = 0"
    by (simp add: axiosB_def)
  have h3: "adapter envRefreshDown (length (calls wA)) (BusinessCall (send_axios_config axiosB wA)) =
     Received 401 ''Unauthorized'' JNull"
    by (simp add: envRefreshDown_def)
  have h4: "refreshFails_axios
     (adapter envRefreshDown (Suc (length (calls wA)))
        (RefreshCall (refresh_url envRefreshDown) (refresh_method envRefreshDown)
           (refreshToken (userData wA))))"
    by (simp add: envRefreshDown_def refreshFails_axios_def)
  have c: "calls wA = []" "refresh_url envRefreshDown = ''/user/refresh''"
          "refresh_method envRefreshDown = post" "refreshToken (userData wA) = JStr ''r0''"
    by (simp_all add: wA_def envRefreshDown_def)
  from C4_failed_refresh [of "Response 401 ''Unauthorized'' None" envDown wA clientB] h1 h2
  have a: "fst (checkResponse envDown clientB (Response 401 ''Unauthorized'' None) wA) =
     Inr (ApiResponse 401 ''Unauthorized'' JUndefined) \<and>
   this_headers (fst (snd (checkResponse envDown clientB (Response 401 ''Unauthorized'' None) wA))) =
     this_headers clientB"
    by simp
  from C4_failed_refresh [of _ envRefreshDown wA _ axiosB "''Unauthorized''" JNull 0] h0 h3 h4
  have b: "send_axios 1 envRefreshDown axiosB wA =
     Some (ApiResponse 401 ''Request failed with status code 401'' JUndefined,
           wA\<lparr> calls := [BusinessCall (send_axios_config axiosB wA),
                          RefreshCall ''/user/refresh'' post (JStr ''r0'')] \<rparr>)"
    by (simp add: c)
  from h1 h2 h0 h3 h4 a b show ?thesis by blast
qed


section \<open>A transport that fails\<close>

text \<open>
  C5, as the code has it. When the transport fails without a response, each client makes
  that one call and no other, and returns status 500 without data. The status text is
  \<open>Internal Server Error\<close> in the fluent client, \<open>Internal Server Error!\<close> in the hook, and
  the message of the error in the client on axios.
\<close>

theorem C5_transport_failure_gives_status_500_without_retry:
  "(list_all (\<lambda>i. i = Returns) (nullish_or (config_interceptor cfg) []) \<and>
    fetch e (length (sent w)) (request_dispatched e cfg w) = Rejected \<longrightarrow>
      fst (request e cfg w) = Inr (ApiResponse 500 ''Internal Server Error!'' JUndefined) \<and>
      sent (snd (request e cfg w)) = sent w @ [request_dispatched e cfg w]) \<and>
   (list_all (\<lambda>i. i = Returns) (this_interceptor this) \<and>
    fetch e (length (sent w)) (send_dispatched this w) = Rejected \<longrightarrow>
      fst (send e this w) = Inr (ApiResponse 500 ''Internal Server Error'' JUndefined) \<and>
      sent (snd (snd (send e this w))) = sent w @ [send_dispatched this w]) \<and>
   (adapter e (length (calls w)) (BusinessCall (send_axios_config ax w)) = NetworkFailure m \<longrightarrow>
      send_axios (Suc n) e ax w =
        Some (ApiResponse 500 m JUndefined,
              w\<lparr> calls := calls w @ [BusinessCall (send_axios_config ax w)] \<rparr>))"
proof (intro conjI impI)
  assume a: "list_all (\<lambda>i. i = Returns) (nullish_or (config_interceptor cfg) []) \<and>
    fetch e (length (sent w)) (request_dispatched e cfg w) = Rejected"
  then show "fst (request e cfg w) = Inr (ApiResponse 500 ''Internal Server Error!'' JUndefined)"
    by (simp add: request_dispatch(1) request_settle_def request_catch_def TypeError_def
          nullish_or_def)
  from a show "sent (snd (request e cfg w)) = sent w @ [request_dispatched e cfg w]"
    by (simp add: request_dispatch(2))
next
  assume a: "list_all (\<lambda>i. i = Returns) (this_interceptor this) \<and>
    fetch e (length (sent w)) (send_dispatched this w) = Rejected"
  then show "fst (send e this w) = Inr (ApiResponse 500 ''Internal Server Error'' JUndefined)"
    by (simp add: send_dispatch(1) send_settle_def send_catch_def TypeError_def)
  from a show "sent (snd (snd (send e this w))) = sent w @ [send_dispatched this w]"
    by (simp add: send_dispatch(2))
next
  assume "adapter e (length (calls w)) (BusinessCall (send_axios_config ax w)) = NetworkFailure m"
  then show "send_axios (Suc n) e ax w =
        Some (ApiResponse 500 m JUndefined,
              w\<lparr> calls := calls w @ [BusinessCall (send_axios_config ax w)] \<rparr>)"
    by (rule send_axios_network_failure)
qed

text \<open>The client on axios with the network down: the status text of the result is the
  message of the error, not \<open>Internal Server Error\<close>.\<close>

theorem C5_counterexample:
  "adapter envDown (length (calls wA)) (BusinessCall (send_axios_config axiosB wA)) =
     NetworkFailure ''Network Error'' \<and>
   map_option fst (send_axios 1 envDown axiosB wA) =
     Some (ApiResponse 500 ''Network Error'' JUndefined) \<and>
   map_option fst (send_axios 1 envDown axiosB wA) \<noteq>
     Some (ApiResponse 500 ''Internal Server Error'' JUndefined)"
  by code_simp

text \<open>The three clients with the network down.\<close>

theorem C5_witness:
  "list_all (\<lambda>i. i = Returns) (nullish_or (config_interceptor cfgA) []) \<and>
   fetch envDown (length (sent wA)) (request_dispatched envDown cfgA wA) = Rejected \<and>
   list_all (\<lambda>i. i = Returns) (this_interceptor clientA) \<and>
   fetch envDown (length (sent wA)) (send_dispatched clientA wA) = Rejected \<and>
   adapter envDown (length (calls wA)) (BusinessCall (send_axios_config axiosB wA)) =
     NetworkFailure ''Network Error'' \<and>
   fst (request envDown cfgA wA) = Inr (ApiResponse 500 ''Internal Server Error!'' JUndefined) \<and>
   sent (snd (request envDown cfgA wA)) = sent wA @ [request_dispatched envDown cfgA wA] \<and>
   fst (send envDown clientA wA) = Inr (ApiResponse 500 ''Internal Server Error'' JUndefined) \<and>
   sent (snd (snd (send envDown clientA wA))) = sent wA @ [send_dispatched clientA wA] \<and>
   send_axios 1 envDown axiosB wA =
     Some (ApiResponse 500 ''Network Error'' JUndefined,
           wA\<lparr> calls := calls wA @ [BusinessCall (send_axios_config axiosB wA)] \<rparr>)"
proof -
  have h1: "list_all (\<lambda>i. i = Returns) (nullish_or (config_interceptor cfgA) [])"
    by (simp add: cfgA_def nullish_or_def)
  have h2: "fetch envDown (length (sent wA)) (request_dispatched envDown cfgA wA) = Rejected"
    by (simp add: envDown_def)
  have h3: "list_all (\<lambda>i. i = Returns) (this_interceptor clientA)"
    by (simp add: clientA_def setData_def setUrl_def setMethod_def new_ApiClient_def)
  have h4: "fetch envDown (length (sent wA)) (send_dispatched clientA wA) = Rejected"
    by (simp add: envDown_def)
  have h5: "adapter envDown (length (calls wA)) (BusinessCall (send_axios_config axiosB wA)) =
     NetworkFailure ''Network Error''"
    by (simp add: envDown_def)
  from C5_transport_failure_gives_status_500_without_retry
         [of cfgA envDown wA clientA axiosB "''Network Error''" 0] h1 h2 h3 h4 h5
  show ?thesis by simp
qed


section \<open>An interceptor that throws\<close>

text \<open>
  C7, as the code has it. The interceptors run inside the \<^verbatim>\<open>try\<close> block of \<^verbatim>\<open>request\<close>
  and of \<^verbatim>\<open>send\<close>. One that throws ends the loop, the later ones are not called and
  nothing is sent; but the exception does not leave the call: the \<^verbatim>\<open>catch\<close> block turns
  it into an \<^verbatim>\<open>ApiResponse\<close>, with status 500 and \<open>Internal Server Error\<close> in the fluent
  client, with \<^verbatim>\<open>e.status ?? 500\<close> and \<^verbatim>\<open>e.statusText ?? 'Internal Server Error!'\<close> in
  the hook. Only for a thrown \<open>null\<close> or \<open>undefined\<close> does an exception leave the call:
  the \<^verbatim>\<open>TypeError\<close> of the \<^verbatim>\<open>catch\<close> block reading a property of it.
\<close>

theorem C7_interceptor_exception_is_caught_by_the_client:
  "(nullish_or (config_interceptor cfg) [] = pre @ Throws ex # later \<and>
    list_all (\<lambda>i. i = Returns) pre \<longrightarrow>
      fst (request e cfg w) =
        (case ex of
           Nullish \<Rightarrow> Inl TypeError
         | Exn s t \<Rightarrow>
             Inr (ApiResponse (nullish_or s 500) (nullish_or t ''Internal Server Error!'') JUndefined)) \<and>
      sent (snd (request e cfg w)) = sent w \<and>
      invoked (snd (request e cfg w)) = invoked w + length pre + 1) \<and>
   (this_interceptor this = pre' @ Throws ex' # later' \<and>
    list_all (\<lambda>i. i = Returns) pre' \<longrightarrow>
      fst (send e this w) =
        (case ex' of
           Nullish \<Rightarrow> Inl TypeError
         | Exn s t \<Rightarrow> Inr (ApiResponse 500 ''Internal Server Error'' JUndefined)) \<and>
      sent (snd (snd (send e this w))) = sent w \<and>
      invoked (snd (snd (send e this w))) = invoked w + length pre' + 1)"
  by (simp add: request_throwing send_throwing request_catch_def send_catch_def)

text \<open>The fluent client with an interceptor that throws an \<^verbatim>\<open>Error\<close>, on a server that
  would answer 200: \<^verbatim>\<open>send\<close> returns a response with status 500.\<close>

theorem C7_counterexample:
  "this_interceptor clientThrows = [Returns, Throws (Exn None None), Returns] \<and>
   fst (send envOk clientThrows wA) = Inr (ApiResponse 500 ''Internal Server Error'' JUndefined)"
  by code_simp

text \<open>An interceptor that throws an error, after one that returns and before another.\<close>

theorem C7_witness:
  "nullish_or (config_interceptor cfgThrows) [] = [Returns] @ Throws (Exn None None) # [Returns] \<and>
   this_interceptor clientThrows = [Returns] @ Throws (Exn None None) # [Returns] \<and>
   list_all (\<lambda>i. i = Returns) [Returns] \<and>
   fst (request envOk cfgThrows wA) = Inr (ApiResponse 500 ''Internal Server Error!'' JUndefined) \<and>
   sent (snd (request envOk cfgThrows wA)) = sent wA \<and>
   invoked (snd (request envOk cfgThrows wA)) = invoked wA + 2 \<and>
   fst (send envOk clientThrows wA) = Inr (ApiResponse 500 ''Internal Server Error'' JUndefined) \<and>
   sent (snd (snd (send envOk clientThrows wA))) = sent wA \<and>
   invoked (snd (snd (send envOk clientThrows wA))) = invoked wA + 2"
proof -
  have h1: "nullish_or (config_interceptor cfgThrows) [] = [Returns] @ Throws (Exn None None) # [Returns]"
    by code_simp
  have h2: "this_interceptor clientThrows = [Returns] @ Throws (Exn None None) # [Returns]"
    by code_simp
  have h3: "list_all (\<lambda>i. i = Returns) [Returns]" by simp
  from C7_interceptor_exception_is_caught_by_the_client
         [of cfgThrows "[Returns]" "Exn None None" "[Returns]" envOk wA clientThrows
             "[Returns]" "Exn None None" "[Returns]"] h1 h2 h3
  show ?thesis by (simp add: nullish_or_def)
qed


section \<open>Query string or body\<close>

text \<open>
  C8. In the hook and in the fluent client, when no interceptor throws, one request is
  sent. With the method GET it has no body, and its URL is the URL after path
  substitution followed by \<open>?\<close> and the remaining parameters as a query string. With
  any other method its URL is the URL after path substitution and its body is the JSON
  text of the remaining parameters, which is never absent. Without a parameter object
  there is neither a query string nor a body.
\<close>

theorem C8_get_carries_a_query_other_methods_a_body:
  "(list_all (\<lambda>i. i = Returns) (nullish_or (config_interceptor cfg) []) \<and>
    config_data cfg = Some r \<and>
    substituteKeys (map fst (heap w r)) (config_url cfg) (heap w r) = (u, obj) \<longrightarrow>
      sent (snd (request e cfg w)) = sent w @
        [\<lparr> req_method = config_method cfg,
           req_url = nullish_or (REACT_APP_API_URL e) [] @ u @
             (if config_method cfg = get then ''?'' @ URLSearchParams_toString obj else []),
           req_headers = request_headers (request_config cfg),
           req_body = (if config_method cfg = get then None else JSON_stringify (JObj obj)) \<rparr>]) \<and>
   (list_all (\<lambda>i. i = Returns) (nullish_or (config_interceptor cfg) []) \<and>
    config_data cfg = None \<longrightarrow>
      sent (snd (request e cfg w)) = sent w @
        [\<lparr> req_method = config_method cfg,
           req_url = nullish_or (REACT_APP_API_URL e) [] @ config_url cfg,
           req_headers = request_headers (request_config cfg),
           req_body = None \<rparr>]) \<and>
   (list_all (\<lambda>i. i = Returns) (this_interceptor this) \<and>
    this_data this = Some r \<and>
    substituteKeys (map fst (heap w r)) (this_url this) (heap w r) = (u', obj') \<longrightarrow>
      sent (snd (snd (send e this w))) = sent w @
        [\<lparr> req_method = this_httpMethod this,
           req_url = u' @
             (if this_httpMethod this = get then ''?'' @ URLSearchParams_toString obj' else []),
           req_headers = this_headers this,
           req_body = (if this_httpMethod this = get then None else JSON_stringify (JObj obj')) \<rparr>]) \<and>
   (list_all (\<lambda>i. i = Returns) (this_interceptor this) \<and>
    this_data this = None \<longrightarrow>
      sent (snd (snd (send e this w))) = sent w @
        [\<lparr> req_method = this_httpMethod this,
           req_url = this_url this,
           req_headers = this_headers this,
           req_body = None \<rparr>]) \<and>
   JSON_stringify (JObj obj) \<noteq> None"
  using request_sent_Some [of cfg r w u obj e] request_sent_None [of cfg e w]
        send_sent_Some [of this r w u' obj' e] send_sent_None [of this e w]
  by simp

text \<open>Scenario A on the hook, scenario B on the fluent client, and both without parameters.\<close>

theorem C8_witness:
  "list_all (\<lambda>i. i = Returns) (nullish_or (config_interceptor cfgA) []) \<and>
   config_data cfgA = Some 0 \<and>
   substituteKeys (map fst (heap wA 0)) (config_url cfgA) (heap wA 0) =
     (''/users/42'', [(''active'', JBool True)]) \<and>
   sent (snd (request envOk cfgA wA)) =
     [\<lparr> req_method = get, req_url = ''/users/42?active=true'',
        req_headers = [(''Content-Type'', ''application/json'')], req_body = None \<rparr>] \<and>
   list_all (\<lambda>i. i = Returns) (this_interceptor clientB) \<and>
   this_data clientB = Some 1 \<and>
   substituteKeys (map fst (heap wA 1)) (this_url clientB) (heap wA 1) =
     (''/orders'', [(''sku'', JStr ''X1'')]) \<and>
   sent (snd (snd (send envOk clientB wA))) =
     [\<lparr> req_method = post, req_url = ''/orders'',
        req_headers = [(''Content-Type'', ''application/json''), (''Authorization'', ''Bearer old'')],
        req_body = JSON_stringify (JObj [(''sku'', JStr ''X1'')]) \<rparr>] \<and>
   list_all (\<lambda>i. i = Returns) (nullish_or (config_interceptor (cfgA\<lparr> config_data := None \<rparr>)) []) \<and>
   config_data (cfgA\<lparr> config_data := None \<rparr>) = None \<and>
   sent (snd (request envOk (cfgA\<lparr> config_data := None \<rparr>) wA)) =
     [\<lparr> req_method = get, req_url = ''/users/{id}'',
        req_headers = [(''Content-Type'', ''application/json'')], req_body = None \<rparr>] \<and>
   list_all (\<lambda>i. i = Returns) (this_interceptor (clientB\<lparr> this_data := None \<rparr>)) \<and>
   this_data (clientB\<lparr> this_data := None \<rparr>) = None \<and>
   sent (snd (snd (send envOk (clientB\<lparr> this_data := None \<rparr>) wA))) =
     [\<lparr> req_method = post, req_url = ''/orders'',
        req_headers = [(''Content-Type'', ''application/json''), (''Authorization'', ''Bearer old'')],
        req_body = None \<rparr>]"
proof -
  have h1: "list_all (\<lambda>i. i = Returns) (nullish_or (config_interceptor cfgA) [])"
           "config_data cfgA = Some 0"
           "substituteKeys (map fst (heap wA 0)) (config_url cfgA) (heap wA 0) =
              (''/users/42'', [(''active'', JBool True)])"
    by code_simp+
  have h2: "list_all (\<lambda>i. i = Returns) (this_interceptor clientB)"
           "this_data clientB = Some 1"
           "substituteKeys (map fst (heap wA 1)) (this_url clientB) (heap wA 1) =
              (''/orders'', [(''sku'', JStr ''X1'')])"
    by code_simp+
  have h3: "list_all (\<lambda>i. i = Returns) (nullish_or (config_interceptor (cfgA\<lparr> config_data := None \<rparr>)) [])"
           "config_data (cfgA\<lparr> config_data := None \<rparr>) = None"
           "list_all (\<lambda>i. i = Returns) (this_interceptor (clientB\<lparr> this_data := None \<rparr>))"
           "this_data (clientB\<lparr> this_data := None \<rparr>) = None"
    by code_simp+
  have v: "sent wA = []" "REACT_APP_API_URL envOk = None"
          "config_method cfgA = get" "this_httpMethod clientB = post"
          "request_headers (request_config cfgA) = [(''Content-Type'', ''application/json'')]"
          "request_headers (request_config (cfgA\<lparr> config_data := None \<rparr>)) =
             [(''Content-Type'', ''application/json'')]"
          "this_headers clientB =
             [(''Content-Type'', ''application/json''), (''Authorization'', ''Bearer old'')]"
          "URLSearchParams_toString [(''active'', JBool True)] = ''active=true''"
          "config_url cfgA = ''/users/{id}''" "this_url clientB = ''/orders''"
    by code_simp+
  from C8_get_carries_a_query_other_methods_a_body
         [of cfgA 0 wA "''/users/42''" "[(''active'', JBool True)]" envOk clientA]
       h1
  have a: "sent (snd (request envOk cfgA wA)) =
     [\<lparr> req_method = get, req_url = ''/users/42?active=true'',
        req_headers = [(''Content-Type'', ''application/json'')], req_body = None \<rparr>]"
    by (simp add: v nullish_or_def)
  from C8_get_carries_a_query_other_methods_a_body
         [of cfgA 1 wA _ _ envOk clientB "''/orders''" "[(''sku'', JStr ''X1'')]"]
       h2
  have b: "sent (snd (snd (send envOk clientB wA))) =
     [\<lparr> req_method = post, req_url = ''/orders'',
        req_headers = [(''Content-Type'', ''application/json''), (''Authorization'', ''Bearer old'')],
        req_body = JSON_stringify (JObj [(''sku'', JStr ''X1'')]) \<rparr>]"
    by (simp add: v)
  from C8_get_carries_a_query_other_methods_a_body
         [of "cfgA\<lparr> config_data := None \<rparr>" _ wA _ _ envOk "clientB\<lparr> this_data := None \<rparr>"]
       h3
  have c: "sent (snd (request envOk (cfgA\<lparr> config_data := None \<rparr>) wA)) =
     [\<lparr> req_method = get, req_url = ''/users/{id}'',
        req_headers = [(''Content-Type'', ''application/json'')], req_body = None \<rparr>]"
     "sent (snd (snd (send envOk (clientB\<lparr> this_data := None \<rparr>) wA))) =
     [\<lparr> req_method = post, req_url = ''/orders'',
        req_headers = [(''Content-Type'', ''application/json''), (''Authorization'', ''Bearer old'')],
        req_body = None \<rparr>]"
    by (simp_all add: v nullish_or_def)
  from h1 h2 h3 a b c show ?thesis by blast
qed


section \<open>A URL without placeholders\<close>

text \<open>
  C9. When the URL holds the placeholder of none of the keys (as a URL without any brace
  does, lemma \<open>no_brace_no_placeholder\<close>), path substitution changes neither the URL nor
  the parameter object, and the whole object goes into the query string of a GET request
  or into the body of any other.
\<close>

theorem C9_substitution_is_the_identity_without_placeholders:
  "(config_data cfg = Some r \<and>
    (\<forall>k \<in> set (map fst (heap w r)). \<not> includes_str (config_url cfg) (placeholder k)) \<longrightarrow>
      setUrlParams_hook cfg w = (cfg, w) \<and>
      heap (snd (request e cfg w)) = heap w \<and>
      (list_all (\<lambda>i. i = Returns) (nullish_or (config_interceptor cfg) []) \<longrightarrow>
         sent (snd (request e cfg w)) = sent w @
           [\<lparr> req_method = config_method cfg,
              req_url = nullish_or (REACT_APP_API_URL e) [] @ config_url cfg @
                (if config_method cfg = get then ''?'' @ URLSearchParams_toString (heap w r)
                 else []),
              req_headers = request_headers (request_config cfg),
              req_body =
                (if config_method cfg = get then None
                 else JSON_stringify (JObj (heap w r))) \<rparr>])) \<and>
   (this_data this = Some r \<and>
    (\<forall>k \<in> set (map fst (heap w r)). \<not> includes_str (this_url this) (placeholder k)) \<longrightarrow>
      setUrlParams this w = (this, w) \<and>
      heap (snd (snd (send e this w))) = heap w \<and>
      (list_all (\<lambda>i. i = Returns) (this_interceptor this) \<longrightarrow>
         sent (snd (snd (send e this w))) = sent w @
           [\<lparr> req_method = this_httpMethod this,
              req_url = this_url this @
                (if this_httpMethod this = get then ''?'' @ URLSearchParams_toString (heap w r)
                 else []),
              req_headers = this_headers this,
              req_body =
                (if this_httpMethod this = get then None
                 else JSON_stringify (JObj (heap w r))) \<rparr>]))"
proof (intro conjI impI)
  assume a: "config_data cfg = Some r \<and>
    (\<forall>k \<in> set (map fst (heap w r)). \<not> includes_str (config_url cfg) (placeholder k))"
  then have sk: "substituteKeys (map fst (heap w r)) (config_url cfg) (heap w r) = (config_url cfg, heap w r)"
    using substituteKeys_no_placeholder by blast
  from a sk show "setUrlParams_hook cfg w = (cfg, w)"
    by (simp add: setUrlParams_hook_Some)
  from a sk show "heap (snd (request e cfg w)) = heap w"
    by (simp add: request_heap)
  assume "list_all (\<lambda>i. i = Returns) (nullish_or (config_interceptor cfg) [])"
  from request_sent_Some [OF this _ sk] a
  show "sent (snd (request e cfg w)) = sent w @
           [\<lparr> req_method = config_method cfg,
              req_url = nullish_or (REACT_APP_API_URL e) [] @ config_url cfg @
                (if config_method cfg = get then ''?'' @ URLSearchParams_toString (heap w r)
                 else []),
              req_headers = request_headers (request_config cfg),
              req_body =
                (if config_method cfg = get then None
                 else JSON_stringify (JObj (heap w r))) \<rparr>]"
    by simp
next
  assume a: "this_data this = Some r \<and>
    (\<forall>k \<in> set (map fst (heap w r)). \<not> includes_str (this_url this) (placeholder k))"
  then have sk: "substituteKeys (map fst (heap w r)) (this_url this) (heap w r) = (this_url this, heap w r)"
    using substituteKeys_no_placeholder by blast
  from a sk show "setUrlParams this w = (this, w)"
    by (simp add: setUrlParams_Some)
  from a sk show "heap (snd (snd (send e this w))) = heap w"
    by (simp add: send_heap)
  assume "list_all (\<lambda>i. i = Returns) (this_interceptor this)"
  from send_sent_Some [OF this _ sk] a
  show "sent (snd (snd (send e this w))) = sent w @
           [\<lparr> req_method = this_httpMethod this,
              req_url = this_url this @
                (if this_httpMethod this = get then ''?'' @ URLSearchParams_toString (heap w r)
                 else []),
              req_headers = this_headers this,
              req_body =
                (if this_httpMethod this = get then None
                 else JSON_stringify (JObj (heap w r))) \<rparr>]"
    by simp
qed

text \<open>Scenario B of the spec on the hook and on the fluent client.\<close>

theorem C9_witness:
  "config_data cfgB = Some 1 \<and>
   map fst (heap wA 1) = [''sku''] \<and>
   \<not> includes_str (config_url cfgB) (placeholder ''sku'') \<and>
   list_all (\<lambda>i. i = Returns) (nullish_or (config_interceptor cfgB) []) \<and>
   setUrlParams_hook cfgB wA = (cfgB, wA) \<and>
   heap (snd (request envOk cfgB wA)) = heap wA \<and>
   sent (snd (request envOk cfgB wA)) =
     [\<lparr> req_method = post, req_url = ''/orders'',
        req_headers = [(''Content-Type'', ''application/json'')],
        req_body = JSON_stringify (JObj [(''sku'', JStr ''X1'')]) \<rparr>] \<and>
   this_data clientB = Some 1 \<and>
   \<not> includes_str (this_url clientB) (placeholder ''sku'') \<and>
   list_all (\<lambda>i. i = Returns) (this_interceptor clientB) \<and>
   setUrlParams clientB wA = (clientB, wA) \<and>
   heap (snd (snd (send envOk clientB wA))) = heap wA \<and>
   sent (snd (snd (send envOk clientB wA))) =
     [\<lparr> req_method = post, req_url = ''/orders'',
        req_headers = [(''Content-Type'', ''application/json''), (''Authorization'', ''Bearer old'')],
        req_body = JSON_stringify (JObj [(''sku'', JStr ''X1'')]) \<rparr>]"
proof -
  have h1: "config_data cfgB = Some 1"
           "\<forall>k \<in> set (map fst (heap wA 1)). \<not> includes_str (config_url cfgB) (placeholder k)"
           "list_all (\<lambda>i. i = Returns) (nullish_or (config_interceptor cfgB) [])"
    by code_simp+
  have h2: "this_data clientB = Some 1"
           "\<forall>k \<in> set (map fst (heap wA 1)). \<not> includes_str (this_url clientB) (placeholder k)"
           "list_all (\<lambda>i. i = Returns) (this_interceptor clientB)"
    by code_simp+
  have v: "sent wA = []" "REACT_APP_API_URL envOk = None"
          "config_method cfgB = post" "this_httpMethod clientB = post"
          "request_headers (request_config cfgB) = [(''Content-Type'', ''application/json'')]"
          "this_headers clientB =
             [(''Content-Type'', ''application/json''), (''Authorization'', ''Bearer old'')]"
          "config_url cfgB = ''/orders''" "this_url clientB = ''/orders''"
          "heap wA (Suc 0) = [(''sku'', JStr ''X1'')]"
    by code_simp+
  from C9_substitution_is_the_identity_without_placeholders [of cfgB 1 wA envOk clientB] h1 h2
  have "setUrlParams_hook cfgB wA = (cfgB, wA) \<and>
   heap (snd (request envOk cfgB wA)) = heap wA \<and>
   sent (snd (request envOk cfgB wA)) =
     [\<lparr> req_method = post, req_url = ''/orders'',
        req_headers = [(''Content-Type'', ''application/json'')],
        req_body = JSON_stringify (JObj [(''sku'', JStr ''X1'')]) \<rparr>] \<and>
   setUrlParams clientB wA = (clientB, wA) \<and>
   heap (snd (snd (send envOk clientB wA))) = heap wA \<and>
   sent (snd (snd (send envOk clientB wA))) =
     [\<lparr> req_method = post, req_url = ''/orders'',
        req_headers = [(''Content-Type'', ''application/json''), (''Authorization'', ''Bearer old'')],
        req_body = JSON_stringify (JObj [(''sku'', JStr ''X1'')]) \<rparr>]"
    by (simp add: v nullish_or_def)
  moreover have "map fst (heap wA 1) = [''sku'']"
    "\<not> includes_str (config_url cfgB) (placeholder ''sku'')"
    "\<not> includes_str (this_url clientB) (placeholder ''sku'')"
    by code_simp+
  ultimately show ?thesis using h1(1,3) h2(1,3) by blast
qed

end
